theory Spec2Isabelle
  imports Complex_Main "HOL-Library.AList" "HOL-Library.Multiset"
    "HOL-Library.Product_Lexorder"
begin

section \<open>Python values used by the redactor\<close>

text \<open>
  The development embeds the detection-and-resolution engine of
  \<^verbatim>\<open>src/lib/API/PDF_IMG_to_TXT.py\<close> (class \<^verbatim>\<open>AdvancedPIIRedactor\<close>).
  A Python \<^verbatim>\<open>str\<close> is a sequence of Unicode code points, so text is a list of
  natural numbers; offsets and \<^verbatim>\<open>len\<close> count code points.  Dictionary keys
  (category names, pattern sources, file paths) are plain ASCII identifiers and are kept
  as HOL strings.

  Python floats are idealised as exact rationals.  The scores of the source are sums of
  the literals 0.7, 0.2 and 0.1 evaluated in IEEE double arithmetic, where for instance
  \<^verbatim>\<open>(0.7 + 0.2) + 0.1\<close> is \<^verbatim>\<open>0.9999999999999999\<close> and not 1; two candidates
  whose confidences are equal here can therefore be strictly ordered in the source, and
  the resolver can then keep other spans of a category than the embedding does.  The
  statements about scores below are statements about the rational formula; the statements
  about overlap removal, non-overlap and masking are proved for every list of candidates
  and do not depend on the values of the confidences.
\<close>

type_synonym codepoint = nat
type_synonym str = "codepoint list"

definition lit :: "string \<Rightarrow> str" where
  "lit cs = map of_char cs"

datatype py_error = ValueError | IndexError | TypeError | OSError

text \<open>
  What the Python runtime and its libraries compute and the source only calls: the
  regular-expression engine, and the Unicode tables behind \<^verbatim>\<open>str.isdigit\<close>,
  \<^verbatim>\<open>int\<close> and \<^verbatim>\<open>str.lower\<close> outside ASCII.  On ASCII text the
  functions below are concrete and the Unicode fields are never consulted.
\<close>

record rmatch =
  whole :: "int \<times> int"
  group1 :: "(int \<times> int) option"

text \<open>
  \<^verbatim>\<open>whole\<close> is \<^verbatim>\<open>(match.start(), match.end())\<close>; \<^verbatim>\<open>group1\<close> is
  \<^verbatim>\<open>None\<close> when the pattern has no capturing group (\<^verbatim>\<open>match.groups()\<close> is
  empty) and the span of group 1 otherwise.  Every capturing group of the registry's
  patterns is mandatory, so group 1 takes part in every match of a pattern that has it.
\<close>

record pyrt =
  re_finditer :: "string \<Rightarrow> str \<Rightarrow> rmatch list"
  u_isdigit :: "codepoint \<Rightarrow> bool"
  u_decimal :: "codepoint \<Rightarrow> nat option"
  u_lower :: "str \<Rightarrow> str"

definition ascii_rt :: "(string \<Rightarrow> str \<Rightarrow> rmatch list) \<Rightarrow> pyrt" where
  "ascii_rt finditer =
     \<lparr>re_finditer = finditer, u_isdigit = (\<lambda>c. False), u_decimal = (\<lambda>c. None),
      u_lower = (\<lambda>s. s)\<rparr>"

definition py_isspace :: "codepoint \<Rightarrow> bool" where
  "py_isspace c =
     ((9 \<le> c \<and> c \<le> 13) \<or> (28 \<le> c \<and> c \<le> 32) \<or> c = 133 \<or> c = 160 \<or> c = 5760
      \<or> (8192 \<le> c \<and> c \<le> 8202) \<or> c = 8232 \<or> c = 8233 \<or> c = 8239 \<or> c = 8287
      \<or> c = 12288)"

definition char_isdigit :: "pyrt \<Rightarrow> codepoint \<Rightarrow> bool" where
  "char_isdigit rt c = (if c < 128 then 48 \<le> c \<and> c \<le> 57 else u_isdigit rt c)"

definition str_isdigit :: "pyrt \<Rightarrow> str \<Rightarrow> bool" where
  "str_isdigit rt s = (s \<noteq> [] \<and> list_all (char_isdigit rt) s)"

definition int_of_char :: "pyrt \<Rightarrow> codepoint \<Rightarrow> nat option" where
  "int_of_char rt c =
     (if c < 128 then (if 48 \<le> c \<and> c \<le> 57 then Some (c - 48) else None)
      else u_decimal rt c)"

definition ascii_lower :: "codepoint \<Rightarrow> codepoint" where
  "ascii_lower c = (if 65 \<le> c \<and> c \<le> 90 then c + 32 else c)"

definition str_lower :: "pyrt \<Rightarrow> str \<Rightarrow> str" where
  "str_lower rt s = (if list_all (\<lambda>c. c < 128) s then map ascii_lower s else u_lower rt s)"

definition str_strip :: "str \<Rightarrow> str" where
  "str_strip s = rev (dropWhile py_isspace (rev (dropWhile py_isspace s)))"

text \<open>Slicing \<^verbatim>\<open>xs[i:j]\<close>, \<^verbatim>\<open>xs[:j]\<close> and \<^verbatim>\<open>xs[i:]\<close> with Python's
  treatment of negative and out-of-range bounds.\<close>

definition slice_index :: "nat \<Rightarrow> int \<Rightarrow> nat" where
  "slice_index n i = (if i < 0 then nat (max 0 (int n + i)) else min (nat i) n)"

definition py_slice :: "'a list \<Rightarrow> int \<Rightarrow> int \<Rightarrow> 'a list" where
  "py_slice xs i j =
     take (slice_index (length xs) j - slice_index (length xs) i)
       (drop (slice_index (length xs) i) xs)"

definition py_slice_to :: "'a list \<Rightarrow> int \<Rightarrow> 'a list" where
  "py_slice_to xs j = take (slice_index (length xs) j) xs"

definition py_slice_from :: "'a list \<Rightarrow> int \<Rightarrow> 'a list" where
  "py_slice_from xs i = drop (slice_index (length xs) i) xs"

text \<open>The substring test \<^verbatim>\<open>needle in hay\<close>.\<close>

fun str_contains :: "str \<Rightarrow> str \<Rightarrow> bool" where
  "str_contains [] needle = (needle = [])"
| "str_contains (h # hs) needle =
     (take (length needle) (h # hs) = needle \<or> str_contains hs needle)"

text \<open>Dictionaries keep insertion order; \<^verbatim>\<open>d[k] = v\<close> is \<^const>\<open>AList.update\<close>
  (overwrite in place, or append), \<^verbatim>\<open>d.get(k)\<close> is \<^const>\<open>map_of\<close>.\<close>

section \<open>Validator: Aadhaar (Verhoeff checksum)\<close>

definition multiplication_table :: "nat list list" where
  "multiplication_table =
    [[0, 1, 2, 3, 4, 5, 6, 7, 8, 9],
     [1, 2, 3, 4, 0, 6, 7, 8, 9, 5],
     [2, 3, 4, 0, 1, 7, 8, 9, 5, 6],
     [3, 4, 0, 1, 2, 8, 9, 5, 6, 7],
     [4, 0, 1, 2, 3, 9, 5, 6, 7, 8],
     [5, 9, 8, 7, 6, 0, 4, 3, 2, 1],
     [6, 5, 9, 8, 7, 1, 0, 4, 3, 2],
     [7, 6, 5, 9, 8, 2, 1, 0, 4, 3],
     [8, 7, 6, 5, 9, 3, 2, 1, 0, 4],
     [9, 8, 7, 6, 5, 4, 3, 2, 1, 0]]"

definition permutation_table :: "nat list list" where
  "permutation_table =
    [[0, 1, 2, 3, 4, 5, 6, 7, 8, 9],
     [1, 5, 7, 6, 2, 8, 3, 0, 9, 4],
     [5, 8, 0, 3, 7, 9, 6, 1, 4, 2],
     [8, 9, 1, 6, 0, 4, 3, 5, 2, 7],
     [9, 4, 5, 3, 1, 2, 6, 8, 7, 0],
     [4, 2, 8, 6, 5, 7, 3, 9, 0, 1],
     [2, 7, 9, 3, 8, 0, 6, 4, 1, 5],
     [7, 0, 4, 6, 9, 1, 3, 2, 5, 8]]"

text \<open>\<^verbatim>\<open>re.sub(r'[-\s]', '', number)\<close>: hyphens and whitespace are deleted.\<close>

definition strip_separators :: "str \<Rightarrow> str" where
  "strip_separators number = filter (\<lambda>c. \<not> (c = 45 \<or> py_isspace c)) number"

text \<open>The loop \<^verbatim>\<open>for i, digit in enumerate(reversed(digits))\<close>.  \<^verbatim>\<open>int(digit)\<close>
  raises \<^verbatim>\<open>ValueError\<close> on a character that is no decimal digit; a list index out of
  range raises \<^verbatim>\<open>IndexError\<close>.\<close>

fun verhoeff_loop :: "pyrt \<Rightarrow> nat \<Rightarrow> nat \<Rightarrow> str \<Rightarrow> py_error + nat" where
  "verhoeff_loop rt i checksum [] = Inr checksum"
| "verhoeff_loop rt i checksum (digit # rest) =
     (case int_of_char rt digit of
        None \<Rightarrow> Inl ValueError
      | Some d \<Rightarrow>
          (if d < 10 \<and> checksum < 10
           then verhoeff_loop rt (i + 1)
                  (multiplication_table ! checksum ! (permutation_table ! (i mod 8) ! d)) rest
           else Inl IndexError))"

definition validate_aadhaar :: "pyrt \<Rightarrow> str \<Rightarrow> py_error + bool" where
  "validate_aadhaar rt number =
     (let digits = strip_separators number in
      if length digits \<noteq> 12 \<or> \<not> str_isdigit rt digits then Inr False
      else if digits = replicate 12 48 \<or> digits = replicate 12 49 then Inr False
      else (case verhoeff_loop rt 0 0 (rev digits) of
              Inl e \<Rightarrow> Inl e
            | Inr checksum \<Rightarrow> Inr (checksum = 0)))"

section \<open>Configuration, registry and keyword table\<close>

text \<open>The two entries of \<^verbatim>\<open>self.config\<close> that the engine reads.\<close>

record app_config =
  confidence_threshold :: rat
  context_window :: int

definition default_config :: app_config where
  "default_config = \<lparr>confidence_threshold = 6 / 10, context_window = 150\<rparr>"

text \<open>One entry of \<^verbatim>\<open>self.patterns\<close>.  A validator is a Python callable: it returns
  a truth value or raises.  \<^verbatim>\<open>validation\<close> and \<^verbatim>\<open>priority\<close> are read with
  \<^verbatim>\<open>config.get\<close>, so either may be missing.\<close>

record pii_config =
  cfg_patterns :: "string list"
  validation :: "(str \<Rightarrow> py_error + bool) option"
  priority :: "int option"

record pii_match =
  m_text :: str
  m_start :: int
  m_end :: int
  confidence :: rat
  m_pattern :: "string option"

type_synonym detections = "(string \<times> pii_match list) list"

record ent =
  label :: string
  ent_text :: str
  start_char :: int
  end_char :: int

record log_entry =
  timestamp :: string
  input_file :: string
  output_file :: string
  pii_detected :: "(string \<times> nat) list"
  total_pii_count :: nat
  pii_details :: "(string \<times> (str \<times> rat) list) list"

record redactor =
  config :: app_config
  nlp :: "(str \<Rightarrow> py_error + ent list) option"
  patterns :: "(string \<times> pii_config) list"
  redaction_log :: "log_entry list"
  context_keywords :: "(string \<times> str list) list"

definition load_context_keywords :: "(string \<times> str list) list" where
  "load_context_keywords =
    [(''AADHAAR'', map lit [''aadhaar'', ''aadhar'', ''uid'', ''unique'', ''identification'',
        ''uidai'', ''enrollment'', ''demographic'']),
     (''PAN'', map lit [''pan'', ''permanent'', ''account'', ''number'', ''income'', ''tax'',
        ''assessee'', ''taxpayer'']),
     (''DRIVING_LICENSE'', map lit [''driving'', ''license'', ''dl'', ''motor'', ''vehicle'',
        ''transport'', ''rto'', ''issued'']),
     (''PASSPORT'', map lit [''passport'', ''travel'', ''document'', ''republic'', ''india'',
        ''issued'', ''valid'']),
     (''VOTER_ID'', map lit [''voter'', ''election'', ''epic'', ''electoral'', ''commission'',
        ''booth'', ''constituency'']),
     (''CREDIT_CARD'', map lit [''credit'', ''debit'', ''card'', ''visa'', ''master'', ''amex'',
        ''discover'', ''valid'', ''expires'']),
     (''BANK_ACCOUNT'', map lit [''account'', ''bank'', ''saving'', ''current'', ''deposit'',
        ''branch'', ''holder'']),
     (''IFSC'', map lit [''ifsc'', ''micr'', ''branch'', ''code'', ''routing'', ''swift'',
        ''bank'']),
     (''MOBILE'', map lit [''mobile'', ''phone'', ''contact'', ''cell'', ''number'',
        ''registered'', ''primary'']),
     (''EMAIL'', map lit [''email'', ''mail'', ''address'', ''contact'', ''registered'',
        ''primary'', ''alternate'']),
     (''DOB'', map lit [''birth'', ''dob'', ''born'', ''date'', ''age'', ''year'', ''month'',
        ''day'']),
     (''ADDRESS'', map lit [''address'', ''residence'', ''house'', ''flat'', ''plot'',
        ''street'', ''road'', ''city'', ''state'', ''country'']),
     (''PINCODE'', map lit [''pin'', ''pincode'', ''postal'', ''zip'', ''area'', ''code'']),
     (''NAME'', map lit [''name'', ''first'', ''last'', ''middle'', ''full'', ''surname'',
        ''given'', ''family'']),
     (''FATHER_NAME'', map lit [''father'', ''dad'', ''papa'', ''parent'', ''guardian'', ''s/o'',
        ''son'', ''daughter'']),
     (''MOTHER_NAME'', map lit [''mother'', ''mom'', ''mama'', ''parent'', ''guardian'', ''d/o'',
        ''w/o'', ''wife'']),
     (''SPOUSE_NAME'', map lit [''spouse'', ''husband'', ''wife'', ''partner'', ''married'',
        ''w/o'', ''s/o''])]"

text \<open>\<^verbatim>\<open>__init__\<close> without a configuration file.  The registry (with its validators)
  and the optional NLP model are supplied by the caller of this definition.\<close>

definition init_redactor ::
  "(string \<times> pii_config) list \<Rightarrow> (str \<Rightarrow> py_error + ent list) option \<Rightarrow> redactor" where
  "init_redactor registry model =
     \<lparr>config = default_config, nlp = model, patterns = registry, redaction_log = [],
      context_keywords = load_context_keywords\<rparr>"

text \<open>The priority tier of every category in \<^verbatim>\<open>_get_comprehensive_patterns\<close>.\<close>

definition registry_priorities :: "(string \<times> int) list" where
  "registry_priorities =
    [(''AADHAAR'', 1), (''PAN'', 1), (''DRIVING_LICENSE'', 2), (''PASSPORT'', 2),
     (''VOTER_ID'', 2), (''CREDIT_CARD'', 1), (''BANK_ACCOUNT'', 2), (''IFSC'', 2),
     (''MOBILE'', 1), (''EMAIL'', 1), (''DOB'', 1), (''AGE'', 3), (''PINCODE'', 2),
     (''ADDRESS'', 3), (''NAME'', 3), (''FATHER_NAME'', 2), (''MOTHER_NAME'', 2),
     (''BIOMETRIC_ID'', 3), (''HEALTH_ID'', 2)]"

section \<open>Context scorer\<close>

text \<open>The loop \<^verbatim>\<open>for keyword in keywords: if keyword in context_text: keyword_score += 0.2\<close>.\<close>

fun keyword_loop :: "str \<Rightarrow> rat \<Rightarrow> str list \<Rightarrow> rat" where
  "keyword_loop context_text keyword_score [] = keyword_score"
| "keyword_loop context_text keyword_score (keyword # rest) =
     keyword_loop context_text
       (if str_contains context_text keyword then keyword_score + 2 / 10 else keyword_score)
       rest"

definition context_text_of :: "pyrt \<Rightarrow> redactor \<Rightarrow> str \<Rightarrow> int \<Rightarrow> int \<Rightarrow> str" where
  "context_text_of rt self txt start endp =
     (let context_window = context_window (config self);
          context_start = max 0 (start - context_window);
          context_end = min (int (length txt)) (endp + context_window)
      in str_lower rt (py_slice txt context_start context_end))"

definition keywords_of :: "redactor \<Rightarrow> string \<Rightarrow> str list" where
  "keywords_of self pii_type =
     (case map_of (context_keywords self) pii_type of None \<Rightarrow> [] | Some ks \<Rightarrow> ks)"

definition calculate_context_score ::
  "pyrt \<Rightarrow> redactor \<Rightarrow> str \<Rightarrow> int \<Rightarrow> int \<Rightarrow> string \<Rightarrow> rat" where
  "calculate_context_score rt self txt start endp pii_type =
     (let context_text = context_text_of rt self txt start endp;
          keywords = keywords_of self pii_type;
          keyword_score = keyword_loop context_text 0 keywords;
          base_score = 7 / 10
      in min 1 (base_score + keyword_score))"

section \<open>Candidate generation (stage 1 of \<^verbatim>\<open>detect_pii\<close>)\<close>

text \<open>\<^verbatim>\<open>match.start(1) if match.groups() else match.start()\<close>, and likewise for the end
  and the text (the matched text is the slice of the buffer between the two offsets).\<close>

definition match_span :: "rmatch \<Rightarrow> int \<times> int" where
  "match_span m = (case group1 m of Some g \<Rightarrow> g | None \<Rightarrow> whole m)"

text \<open>The \<^verbatim>\<open>try\<close> / bare \<^verbatim>\<open>except\<close> around the validator call: an exception of
  the validator becomes \<^verbatim>\<open>is_valid = False\<close>; a missing validator is \<^verbatim>\<open>True\<close>.\<close>

definition is_valid_of :: "pii_config \<Rightarrow> str \<Rightarrow> bool" where
  "is_valid_of cfg match_text =
     (case validation cfg of
        Some validate \<Rightarrow> (case validate match_text of Inl e \<Rightarrow> False | Inr b \<Rightarrow> b)
      | None \<Rightarrow> True)"

definition priority_boost :: "pii_config \<Rightarrow> rat" where
  "priority_boost cfg =
     of_int (4 - (case priority cfg of Some p \<Rightarrow> p | None \<Rightarrow> 3)) * (1 / 10)"

text \<open>The body of the innermost loop: \<^verbatim>\<open>None\<close> when nothing is appended.\<close>

definition candidate ::
  "pyrt \<Rightarrow> redactor \<Rightarrow> str \<Rightarrow> string \<Rightarrow> pii_config \<Rightarrow> string \<Rightarrow> rmatch \<Rightarrow> pii_match option" where
  "candidate rt self txt pii_type cfg pat m =
     (let match_start = fst (match_span m);
          match_end = snd (match_span m);
          match_text = py_slice txt match_start match_end;
          context_score = calculate_context_score rt self txt match_start match_end pii_type;
          is_valid = is_valid_of cfg match_text;
          final_confidence = min 1 (context_score + priority_boost cfg)
      in if is_valid \<and> final_confidence > confidence_threshold (config self)
         then Some \<lparr>m_text = match_text, m_start = match_start, m_end = match_end,
                     confidence = final_confidence, m_pattern = Some pat\<rparr>
         else None)"

fun match_loop ::
  "pyrt \<Rightarrow> redactor \<Rightarrow> str \<Rightarrow> string \<Rightarrow> pii_config \<Rightarrow> string \<Rightarrow> pii_match list \<Rightarrow> rmatch list
     \<Rightarrow> pii_match list" where
  "match_loop rt self txt pii_type cfg pat matches [] = matches"
| "match_loop rt self txt pii_type cfg pat matches (m # rest) =
     match_loop rt self txt pii_type cfg pat
       (case candidate rt self txt pii_type cfg pat m of
          Some c \<Rightarrow> matches @ [c]
        | None \<Rightarrow> matches)
       rest"

fun pattern_loop ::
  "pyrt \<Rightarrow> redactor \<Rightarrow> str \<Rightarrow> string \<Rightarrow> pii_config \<Rightarrow> pii_match list \<Rightarrow> string list
     \<Rightarrow> pii_match list" where
  "pattern_loop rt self txt pii_type cfg matches [] = matches"
| "pattern_loop rt self txt pii_type cfg matches (pat # rest) =
     pattern_loop rt self txt pii_type cfg
       (match_loop rt self txt pii_type cfg pat matches (re_finditer rt pat txt))
       rest"

definition category_matches ::
  "pyrt \<Rightarrow> redactor \<Rightarrow> str \<Rightarrow> string \<Rightarrow> pii_config \<Rightarrow> pii_match list" where
  "category_matches rt self txt pii_type cfg =
     pattern_loop rt self txt pii_type cfg [] (cfg_patterns cfg)"

section \<open>Overlap removal\<close>

definition overlapping :: "pii_match \<Rightarrow> pii_match \<Rightarrow> bool" where
  "overlapping m existing = (m_start m < m_end existing \<and> m_end m > m_start existing)"

text \<open>\<^verbatim>\<open>sorted(matches, key=lambda x: x["confidence"], reverse=True)\<close>: Python's sort is
  stable also with \<^verbatim>\<open>reverse=True\<close>, so candidates of equal confidence keep their
  order; this is the stable ascending sort on the negated key.\<close>

definition sort_by_confidence :: "pii_match list \<Rightarrow> pii_match list" where
  "sort_by_confidence matches = sort_key (\<lambda>x. - confidence x) matches"

fun filter_loop :: "pii_match list \<Rightarrow> pii_match list \<Rightarrow> pii_match list" where
  "filter_loop filtered_matches [] = filtered_matches"
| "filter_loop filtered_matches (m # rest) =
     filter_loop
       (if list_ex (overlapping m) filtered_matches then filtered_matches
        else filtered_matches @ [m])
       rest"

definition remove_overlapping_matches :: "pii_match list \<Rightarrow> pii_match list" where
  "remove_overlapping_matches matches =
     (if matches = [] then matches else filter_loop [] (sort_by_confidence matches))"

section \<open>NLP entities, refinement and \<^verbatim>\<open>detect_pii\<close>\<close>

definition nlp_labels :: "string list" where
  "nlp_labels = [''PERSON'', ''ORG'', ''GPE'', ''MONEY'', ''DATE'', ''CARDINAL'']"

definition dict_append :: "detections \<Rightarrow> string \<Rightarrow> pii_match list \<Rightarrow> detections" where
  "dict_append d k ms =
     AList.update k ((case map_of d k of Some old \<Rightarrow> old | None \<Rightarrow> []) @ ms) d"

text \<open>The dictionary that is appended for an entity of \<^verbatim>\<open>doc.ents\<close>.\<close>

definition ent_match :: "ent \<Rightarrow> pii_match" where
  "ent_match e = \<lparr>m_text = ent_text e, m_start = start_char e, m_end = end_char e,
                   confidence = 8 / 10, m_pattern = None\<rparr>"

fun ent_loop :: "detections \<Rightarrow> ent list \<Rightarrow> detections" where
  "ent_loop entities [] = entities"
| "ent_loop entities (e # rest) =
     ent_loop
       (if label e \<in> set nlp_labels
        then dict_append entities (''NLP_'' @ label e) [ent_match e]
        else entities)
       rest"

text \<open>\<^verbatim>\<open>_detect_nlp_entities\<close>: an exception of the model is logged and gives \<^verbatim>\<open>{}\<close>.\<close>

definition detect_nlp_entities :: "(str \<Rightarrow> py_error + ent list) \<Rightarrow> str \<Rightarrow> detections" where
  "detect_nlp_entities model txt =
     (case model txt of Inl e \<Rightarrow> [] | Inr ents \<Rightarrow> ent_loop [] ents)"

fun merge_nlp :: "detections \<Rightarrow> detections \<Rightarrow> detections" where
  "merge_nlp detected_pii [] = detected_pii"
| "merge_nlp detected_pii ((entity_type, entities) # rest) =
     merge_nlp
       (if map_of detected_pii entity_type = None
        then AList.update entity_type entities detected_pii
        else dict_append detected_pii entity_type entities)
       rest"

definition is_false_positive :: "pyrt \<Rightarrow> str \<Rightarrow> string \<Rightarrow> bool" where
  "is_false_positive rt t pii_type =
     (let text_lower = str_strip (str_lower rt t);
          false_positives =
            [(''NAME'', map lit [''name'', ''first'', ''last'', ''full'', ''mr'', ''mrs'', ''ms'',
                ''dr'', ''sir'', ''madam'']),
             (''MOBILE'', map lit [''0000000000'', ''1111111111'', ''9999999999'']),
             (''EMAIL'', map lit [''email@example.com'', ''test@test.com'']),
             (''ADDRESS'', map lit [''address'', ''street'', ''city'', ''state''])]
      in text_lower \<in> set (case map_of false_positives pii_type of
                              Some l \<Rightarrow> l | None \<Rightarrow> []))"

definition keep_match :: "pyrt \<Rightarrow> string \<Rightarrow> pii_match \<Rightarrow> bool" where
  "keep_match rt pii_type m =
     (\<not> (pii_type \<in> set [''NAME'', ''ADDRESS''] \<and> length (str_strip (m_text m)) < 3)
      \<and> \<not> is_false_positive rt (m_text m) pii_type)"

fun refine_loop :: "pyrt \<Rightarrow> detections \<Rightarrow> detections \<Rightarrow> detections" where
  "refine_loop rt refined_pii [] = refined_pii"
| "refine_loop rt refined_pii ((pii_type, matches) # rest) =
     refine_loop rt
       (let refined_matches = filter (keep_match rt pii_type) matches
        in if refined_matches \<noteq> [] then AList.update pii_type refined_matches refined_pii
           else refined_pii)
       rest"

definition refine_detections :: "pyrt \<Rightarrow> detections \<Rightarrow> detections" where
  "refine_detections rt detected_pii = refine_loop rt [] detected_pii"

fun stage1 ::
  "pyrt \<Rightarrow> redactor \<Rightarrow> str \<Rightarrow> detections \<Rightarrow> (string \<times> pii_config) list \<Rightarrow> detections" where
  "stage1 rt self txt detected_pii [] = detected_pii"
| "stage1 rt self txt detected_pii ((pii_type, cfg) # rest) =
     stage1 rt self txt
       (let matches = category_matches rt self txt pii_type cfg
        in if matches \<noteq> []
           then AList.update pii_type (remove_overlapping_matches matches) detected_pii
           else detected_pii)
       rest"

text \<open>\<^verbatim>\<open>detect_pii\<close>.  The argument is what \<^verbatim>\<open>extract_text_from_file\<close> returned:
  \<^verbatim>\<open>None\<close> or a string; both \<^verbatim>\<open>None\<close> and the empty string are falsy.\<close>

definition detect_pii :: "pyrt \<Rightarrow> redactor \<Rightarrow> str option \<Rightarrow> detections" where
  "detect_pii rt self text_opt =
     (case text_opt of
        None \<Rightarrow> []
      | Some txt \<Rightarrow>
          if txt = [] then []
          else
            (let detected_pii = stage1 rt self txt [] (patterns self);
                 merged =
                   (case nlp self of
                      Some model \<Rightarrow> merge_nlp detected_pii (detect_nlp_entities model txt)
                    | None \<Rightarrow> detected_pii)
             in refine_detections rt merged))"

section \<open>Text redaction, the redaction log and the summary\<close>

text \<open>The block-mask character U+2588.\<close>

definition mask_char :: codepoint where
  "mask_char = 9608"

text \<open>\<^verbatim>\<open>all_matches\<close> collects the matches of every category in dictionary order and is
  then sorted in place by start offset, descending (a stable sort).\<close>

definition all_matches_of :: "detections \<Rightarrow> pii_match list" where
  "all_matches_of pii_data = concat (map snd pii_data)"

definition redaction_order :: "detections \<Rightarrow> pii_match list" where
  "redaction_order pii_data = sort_key (\<lambda>x. - m_start x) (all_matches_of pii_data)"

definition mask_span :: "str \<Rightarrow> pii_match \<Rightarrow> str" where
  "mask_span redacted_text m =
     py_slice_to redacted_text (m_start m) @ replicate (nat (m_end m - m_start m)) mask_char
       @ py_slice_from redacted_text (m_end m)"

fun mask_loop :: "str \<Rightarrow> pii_match list \<Rightarrow> str" where
  "mask_loop redacted_text [] = redacted_text"
| "mask_loop redacted_text (m # rest) = mask_loop (mask_span redacted_text m) rest"

definition redacted_text_of :: "str \<Rightarrow> detections \<Rightarrow> str" where
  "redacted_text_of txt pii_data = mask_loop txt (redaction_order pii_data)"

text \<open>\<^verbatim>\<open>_log_redaction\<close>; the time stamp is read from the clock by the caller.\<close>

definition log_entry_of :: "string \<Rightarrow> string \<Rightarrow> string \<Rightarrow> detections \<Rightarrow> log_entry" where
  "log_entry_of now input_path output_path pii_data =
     \<lparr>timestamp = now, input_file = input_path, output_file = output_path,
      pii_detected = map (\<lambda>(k, v). (k, length v)) pii_data,
      total_pii_count = sum_list (map (\<lambda>(k, v). length v) pii_data),
      pii_details =
        map (\<lambda>(k, v). (k, map (\<lambda>m. (lit ''***REDACTED***'', confidence m)) v)) pii_data\<rparr>"

definition log_redaction :: "redactor \<Rightarrow> string \<Rightarrow> string \<Rightarrow> string \<Rightarrow> detections \<Rightarrow> redactor" where
  "log_redaction self now input_path output_path pii_data =
     self\<lparr>redaction_log := redaction_log self @ [log_entry_of now input_path output_path pii_data]\<rparr>"

text \<open>What a redaction leaves at the output path: a copy of the input file
  (\<^verbatim>\<open>shutil.copy2\<close>) or the written text.\<close>

datatype file_action = CopyFile string string | WriteText string str

text \<open>The file system: copying a file and writing a text file either succeed or raise.\<close>

record filesys =
  copy_file :: "string \<Rightarrow> string \<Rightarrow> py_error option"
  write_file :: "string \<Rightarrow> str \<Rightarrow> py_error option"

text \<open>\<^verbatim>\<open>_redact_text\<close>.  \<^verbatim>\<open>extract\<close> stands for \<^verbatim>\<open>extract_text_from_file\<close>
  (\<^verbatim>\<open>None\<close> when extraction failed, since it catches every exception) and
  \<^verbatim>\<open>now\<close> for the clock.  The result is the redactor after the call together with
  the exception that left the call or the file action that was carried out.  An exception
  of \<^verbatim>\<open>shutil.copy2\<close> or of \<^verbatim>\<open>open\<close>/\<^verbatim>\<open>write\<close> leaves the call before
  \<^verbatim>\<open>_log_redaction\<close> is reached.\<close>

definition redact_text ::
  "pyrt \<Rightarrow> (string \<Rightarrow> str option) \<Rightarrow> filesys \<Rightarrow> string \<Rightarrow> redactor \<Rightarrow> string \<Rightarrow> string
     \<Rightarrow> redactor \<times> (py_error + file_action)" where
  "redact_text rt extract fs now self input_path output_path =
     (let txt = extract input_path;
          pii_data = detect_pii rt self txt
      in if pii_data = []
         then (case copy_file fs input_path output_path of
                 Some e \<Rightarrow> (self, Inl e)
               | None \<Rightarrow> (self, Inr (CopyFile input_path output_path)))
         else
           (let redacted_text =
                  redacted_text_of (case txt of Some t \<Rightarrow> t | None \<Rightarrow> []) pii_data
            in case write_file fs output_path redacted_text of
                 Some e \<Rightarrow> (self, Inl e)
               | None \<Rightarrow> (log_redaction self now input_path output_path pii_data,
                           Inr (WriteText output_path redacted_text))))"

text \<open>
  \<^verbatim>\<open>_redact_pdf\<close>, \<^verbatim>\<open>_redact_word\<close>, \<^verbatim>\<open>_redact_excel\<close> and
  \<^verbatim>\<open>_redact_image\<close> have the same frame: extract, detect, copy the file and return
  when nothing is detected, otherwise rewrite the document and save it, then log.  The
  rewriting and saving is done by the document libraries; it is the argument
  \<^verbatim>\<open>applicator\<close>, which is given the detections and either raises or completes.
\<close>

definition redact_with ::
  "pyrt \<Rightarrow> (string \<Rightarrow> str option) \<Rightarrow> filesys \<Rightarrow> (detections \<Rightarrow> py_error + file_action) \<Rightarrow> string
     \<Rightarrow> redactor \<Rightarrow> string \<Rightarrow> string \<Rightarrow> redactor \<times> (py_error + file_action)" where
  "redact_with rt extract fs applicator now self input_path output_path =
     (let txt = extract input_path;
          pii_data = detect_pii rt self txt
      in if pii_data = []
         then (case copy_file fs input_path output_path of
                 Some e \<Rightarrow> (self, Inl e)
               | None \<Rightarrow> (self, Inr (CopyFile input_path output_path)))
         else (case applicator pii_data of
                 Inl e \<Rightarrow> (self, Inl e)
               | Inr action \<Rightarrow> (log_redaction self now input_path output_path pii_data,
                                 Inr action)))"

text \<open>The rewriting step of \<^verbatim>\<open>_redact_text\<close>: mask and write.\<close>

definition write_redacted ::
  "filesys \<Rightarrow> str option \<Rightarrow> string \<Rightarrow> detections \<Rightarrow> py_error + file_action" where
  "write_redacted fs txt output_path pii_data =
     (let redacted_text =
            redacted_text_of (case txt of Some t \<Rightarrow> t | None \<Rightarrow> []) pii_data
      in case write_file fs output_path redacted_text of
           Some e \<Rightarrow> Inl e
         | None \<Rightarrow> Inr (WriteText output_path redacted_text))"

text \<open>\<^verbatim>\<open>get_redaction_summary\<close> returns a dictionary with values of several types.\<close>

datatype summary_value =
  IntVal nat
  | StrVal str
  | CountsVal "(string \<times> nat) list"
  | LogVal "log_entry list"

fun count_loop :: "(string \<times> nat) list \<Rightarrow> (string \<times> nat) list \<Rightarrow> (string \<times> nat) list" where
  "count_loop found [] = found"
| "count_loop found ((pii_type, n) # rest) =
     count_loop
       (let found0 = (if map_of found pii_type = None then AList.update pii_type 0 found
                      else found)
        in AList.update pii_type
             ((case map_of found0 pii_type of Some c \<Rightarrow> c | None \<Rightarrow> 0) + n) found0)
       rest"

fun aggregate_loop :: "(string \<times> nat) list \<Rightarrow> log_entry list \<Rightarrow> (string \<times> nat) list" where
  "aggregate_loop found [] = found"
| "aggregate_loop found (entry # rest) =
     aggregate_loop (count_loop found (pii_detected entry)) rest"

definition get_redaction_summary :: "redactor \<Rightarrow> (string \<times> summary_value) list" where
  "get_redaction_summary self =
     (if redaction_log self = [] then [(''message'', StrVal (lit ''No redactions performed yet''))]
      else
        [(''total_files_processed'', IntVal (length (redaction_log self))),
         (''total_pii_redacted'', IntVal (sum_list (map total_pii_count (redaction_log self)))),
         (''pii_types_found'', CountsVal (aggregate_loop [] (redaction_log self))),
         (''redaction_log'', LogVal (redaction_log self))])"

section \<open>The earlier variant of the class (\<^verbatim>\<open>src/abcd.py\<close>)\<close>

text \<open>
  The repository holds a second, older \<^verbatim>\<open>AdvancedPIIRedactor\<close>.  Its masking loop and
  its Verhoeff tables are those above; the functions below differ.  The validator there
  has neither the \<^verbatim>\<open>isdigit\<close> test nor the test for degenerate strings.
\<close>

definition legacy_validate_aadhaar :: "pyrt \<Rightarrow> str \<Rightarrow> py_error + bool" where
  "legacy_validate_aadhaar rt number =
     (let digits = strip_separators number in
      if length digits \<noteq> 12 then Inr False
      else (case verhoeff_loop rt 0 0 (rev digits) of
              Inl e \<Rightarrow> Inl e
            | Inr checksum \<Rightarrow> Inr (checksum = 0)))"

text \<open>The scorer there counts the matches of a context pattern in a window of width 100;
  \<^verbatim>\<open>findall\<close> stands for \<^verbatim>\<open>len(re.findall(pattern, text, re.IGNORECASE))\<close>.\<close>

definition legacy_context_score ::
  "(string \<Rightarrow> str \<Rightarrow> nat) \<Rightarrow> str \<Rightarrow> int \<Rightarrow> int \<Rightarrow> string \<Rightarrow> rat" where
  "legacy_context_score findall txt start endp context_pattern =
     (if context_pattern = [] then 1
      else
        (let context_window = 100;
             context_start = max 0 (start - context_window);
             context_end = min (int (length txt)) (endp + context_window);
             context_text = py_slice txt context_start context_end
         in min 1 (of_nat (findall context_pattern context_text) * (3 / 10) + 7 / 10)))"

text \<open>The loop body of its \<^verbatim>\<open>detect_pii\<close>: the validator is called outside any
  \<^verbatim>\<open>try\<close>, so its exception is the result of the call.\<close>

definition legacy_candidate ::
  "(string \<Rightarrow> str \<Rightarrow> nat) \<Rightarrow> rat \<Rightarrow> string \<Rightarrow> (str \<Rightarrow> py_error + bool) option \<Rightarrow> str \<Rightarrow> rmatch
     \<Rightarrow> py_error + pii_match option" where
  "legacy_candidate findall threshold context_pattern validate txt m =
     (let match_start = fst (whole m);
          match_end = snd (whole m);
          match_text = py_slice txt match_start match_end;
          context_score = legacy_context_score findall txt match_start match_end context_pattern;
          emitted = (\<lambda>is_valid. if is_valid \<and> context_score > threshold
                       then Some \<lparr>m_text = match_text, m_start = match_start, m_end = match_end,
                                   confidence = context_score, m_pattern = None\<rparr>
                       else None)
      in case validate of
           Some v \<Rightarrow> (case v match_text of Inl e \<Rightarrow> Inl e | Inr b \<Rightarrow> Inr (emitted b))
         | None \<Rightarrow> Inr (emitted True))"

definition legacy_get_redaction_summary :: "redactor \<Rightarrow> (string \<times> summary_value) list" where
  "legacy_get_redaction_summary self =
     [(''total_files_processed'', IntVal (length (redaction_log self))),
      (''total_pii_redacted'', IntVal (sum_list (map total_pii_count (redaction_log self)))),
      (''redaction_log'', LogVal (redaction_log self))]"

section \<open>Reference readings of the specification\<close>

text \<open>The number of occurrences of a keyword in a window, position by position, and the
  keyword hit count of the specification's scorer: occurrences summed over the
  category's keywords.\<close>

fun occurrences :: "str \<Rightarrow> str \<Rightarrow> nat" where
  "occurrences [] needle = 0"
| "occurrences (h # hs) needle =
     (if take (length needle) (h # hs) = needle then 1 else 0) + occurrences hs needle"

definition keyword_hit_count_spec :: "str \<Rightarrow> str list \<Rightarrow> nat" where
  "keyword_hit_count_spec window keywords = sum_list (map (occurrences window) keywords)"

text \<open>The number of keywords present in the window at least once.\<close>

definition keywords_present :: "str \<Rightarrow> str list \<Rightarrow> nat" where
  "keywords_present window keywords = length (filter (str_contains window) keywords)"

text \<open>The resolver of the specification: candidates ordered by confidence descending,
  ties by earliest start and then by longest span; a candidate is accepted iff its
  half-open interval meets no accepted interval.\<close>

definition span_set :: "pii_match \<Rightarrow> int set" where
  "span_set m = {m_start m..<m_end m}"

definition spec_order :: "pii_match list \<Rightarrow> pii_match list" where
  "spec_order matches =
     sort_key (\<lambda>x. (- confidence x, m_start x, - (m_end x - m_start x))) matches"

fun spec_greedy :: "pii_match list \<Rightarrow> pii_match list \<Rightarrow> pii_match list" where
  "spec_greedy accepted [] = accepted"
| "spec_greedy accepted (m # rest) =
     spec_greedy
       (if list_all (\<lambda>a. span_set m \<inter> span_set a = {}) accepted then accepted @ [m]
        else accepted)
       rest"

definition spec_resolve :: "pii_match list \<Rightarrow> pii_match list" where
  "spec_resolve matches = spec_greedy [] (spec_order matches)"

text \<open>The same greedy pass over the order the source produces: confidence descending,
  candidates of equal confidence in their order of generation.\<close>

definition stable_resolve :: "pii_match list \<Rightarrow> pii_match list" where
  "stable_resolve matches = spec_greedy [] (sort_by_confidence matches)"



text \<open>The window of the specification: \<^verbatim>\<open>w\<close> positions on each side of
  \<^verbatim>\<open>[s, e)\<close>, clamped to the buffer.\<close>

definition window_spec :: "str \<Rightarrow> nat \<Rightarrow> nat \<Rightarrow> nat \<Rightarrow> str" where
  "window_spec txt s e w = take (min (length txt) (e + w) - (s - w)) (drop (s - w) txt)"

text \<open>A validator with the containment of \<^verbatim>\<open>detect_pii\<close> built in: it returns
  \<^verbatim>\<open>False\<close> where the original raises.\<close>

definition contain_validator :: "(str \<Rightarrow> py_error + bool) \<Rightarrow> str \<Rightarrow> py_error + bool" where
  "contain_validator v t = (case v t of Inl e \<Rightarrow> Inr False | Inr b \<Rightarrow> Inr b)"

definition contain_cfg :: "pii_config \<Rightarrow> pii_config" where
  "contain_cfg cfg = cfg\<lparr>validation := map_option contain_validator (validation cfg)\<rparr>"

text \<open>A match without its text, offsets and pattern: what is left are the category it is
  filed under and its confidence.\<close>

definition scrub :: "pii_match \<Rightarrow> pii_match" where
  "scrub m = m\<lparr>m_text := [], m_start := 0, m_end := 0, m_pattern := None\<rparr>"

text \<open>The count a log entry records for a category (0 when the category is absent).\<close>

definition category_count :: "log_entry \<Rightarrow> string \<Rightarrow> nat" where
  "category_count entry c = sum_list (map snd (filter (\<lambda>p. fst p = c) (pii_detected entry)))"

section \<open>A worked example\<close>

text \<open>
  The text \<^verbatim>\<open>uid 1234 5678 9121\<close> and a registry that holds the AADHAAR category with
  its first and third pattern.  Pattern sources are opaque to the embedding and are named
  by category and position; the regular-expression engine of the example answers as
  Python's does on this text: the bare pattern matches \<^verbatim>\<open>[4, 18)\<close>, the labelled
  pattern matches \<^verbatim>\<open>[0, 18)\<close> with group 1 at \<^verbatim>\<open>[4, 18)\<close>.
\<close>

definition demo_text :: str where
  "demo_text = lit ''uid 1234 5678 9121''"

definition demo_finditer :: "string \<Rightarrow> str \<Rightarrow> rmatch list" where
  "demo_finditer pat txt =
     (if txt = demo_text \<and> pat = ''AADHAAR/1'' then [\<lparr>whole = (4, 18), group1 = None\<rparr>]
      else if txt = demo_text \<and> pat = ''AADHAAR/3''
           then [\<lparr>whole = (0, 18), group1 = Some (4, 18)\<rparr>]
      else [])"

definition demo_rt :: pyrt where
  "demo_rt = ascii_rt demo_finditer"

definition demo_cfg :: pii_config where
  "demo_cfg = \<lparr>cfg_patterns = [''AADHAAR/1'', ''AADHAAR/3''],
               validation = Some (validate_aadhaar demo_rt), priority = Some 1\<rparr>"

definition demo_self :: redactor where
  "demo_self = init_redactor [(''AADHAAR'', demo_cfg)] None"

definition demo_match :: "string \<Rightarrow> pii_match" where
  "demo_match pat = \<lparr>m_text = lit ''1234 5678 9121'', m_start = 4, m_end = 18, confidence = 1,
                      m_pattern = Some pat\<rparr>"

text \<open>The same category with a validator that raises on every input.\<close>

definition raising_cfg :: pii_config where
  "raising_cfg = demo_cfg\<lparr>validation := Some (\<lambda>t. Inl TypeError)\<rparr>"

text \<open>A text in which the keyword \<^verbatim>\<open>uid\<close> occurs twice before the number at
  \<^verbatim>\<open>[8, 22)\<close>.\<close>

definition twice_text :: str where
  "twice_text = lit ''uid uid 1234 5678 9121''"

text \<open>Two MOBILE candidates of equal confidence for the text \<^verbatim>\<open>91 9876543210\<close>, in
  the order in which the first and the second MOBILE pattern produce them: the bare
  ten-digit number at \<^verbatim>\<open>[3, 13)\<close> and the prefixed number at \<^verbatim>\<open>[0, 13)\<close>.\<close>

definition mobile_bare :: pii_match where
  "mobile_bare = \<lparr>m_text = lit ''9876543210'', m_start = 3, m_end = 13, confidence = 1,
                   m_pattern = Some ''MOBILE/1''\<rparr>"

definition mobile_prefixed :: pii_match where
  "mobile_prefixed = \<lparr>m_text = lit ''91 9876543210'', m_start = 0, m_end = 13, confidence = 1,
                       m_pattern = Some ''MOBILE/2''\<rparr>"



text \<open>A span that lies inside a buffer: \<^verbatim>\<open>0 <= start <= end <= len(text)\<close>.\<close>

definition in_bounds :: "str \<Rightarrow> pii_match \<Rightarrow> bool" where
  "in_bounds t m = (0 \<le> m_start m \<and> m_start m \<le> m_end m \<and> m_end m \<le> int (length t))"

text \<open>A file system on which every operation succeeds, one on which writing fails, and
  the log entry of a redaction of the example text.\<close>

definition fs_ok :: filesys where
  "fs_ok = \<lparr>copy_file = (\<lambda>src dst. None), write_file = (\<lambda>path t. None)\<rparr>"

definition fs_readonly :: filesys where
  "fs_readonly = \<lparr>copy_file = (\<lambda>src dst. Some OSError), write_file = (\<lambda>path t. Some OSError)\<rparr>"

definition demo_entry :: log_entry where
  "demo_entry = log_entry_of ''2025-01-01T00:00:00'' ''in.txt'' ''out.txt''
                  [(''AADHAAR'', [demo_match ''AADHAAR/1''])]"

section \<open>Properties\<close>

subsection \<open>Aadhaar validator\<close>

lemma replicate12: "replicate 12 x = [x, x, x, x, x, x, x, x, x, x, x, x]"
  by (simp add: eval_nat_numeral)

lemma lit_threes:
  "lit ''3333 3333 3333'' = [51, 51, 51, 51, 32, 51, 51, 51, 51, 32, 51, 51, 51, 51]"
  by (simp add: lit_def)

lemma strip_threes: "strip_separators (lit ''3333 3333 3333'') = replicate 12 51"
  by (simp add: lit_threes strip_separators_def py_isspace_def replicate12)

text \<open>
  Claim C7.  The validator is claimed to return false for every input whose stripped form
  is one digit repeated twelve times.  The source rejects only twelve zeros and twelve
  ones; the text \<^verbatim>\<open>3333 3333 3333\<close>, which the first AADHAAR pattern matches, strips
  to twelve threes, passes the Verhoeff loop with checksum 0, and is accepted.
\<close>

theorem validate_aadhaar_accepts_repeated_three:
  "validate_aadhaar rt (lit ''3333 3333 3333'') = Inr True"
  unfolding validate_aadhaar_def strip_threes Let_def
  by (simp add: replicate12 str_isdigit_def char_isdigit_def int_of_char_def
      multiplication_table_def permutation_table_def)

theorem validate_aadhaar_accepts_repeated_three_witness:
  "validate_aadhaar (ascii_rt (\<lambda>p t. [])) (lit ''3333 3333 3333'') = Inr True"
  by (rule validate_aadhaar_accepts_repeated_three)

subsection \<open>Context scorer\<close>

lemma keyword_loop_count:
  "keyword_loop ct acc ks = acc + 2 / 10 * of_nat (keywords_present ct ks)"
  by (induction ks arbitrary: acc) (auto simp: keywords_present_def algebra_simps)

lemma context_score_closed:
  "calculate_context_score rt self txt s e pii_type =
     min 1 (7 / 10 + 2 / 10 * of_nat (keywords_present (context_text_of rt self txt s e) (keywords_of self pii_type)))"
  by (simp add: calculate_context_score_def keyword_loop_count)

lemma context_score_range:
  "7 / 10 \<le> calculate_context_score rt self txt s e pii_type \<and>
   calculate_context_score rt self txt s e pii_type \<le> 1"
  by (simp add: context_score_closed)

lemma slice_window:
  assumes "0 \<le> s" "s \<le> e" "e \<le> int (length txt)" "0 \<le> w"
  shows "py_slice txt (max 0 (s - w)) (min (int (length txt)) (e + w))
           = window_spec txt (nat s) (nat e) (nat w)"
proof -
  have a: "slice_index (length txt) (max 0 (s - w)) = nat s - nat w"
    using assms by (auto simp: slice_index_def max_def)
  have b: "slice_index (length txt) (min (int (length txt)) (e + w))
             = min (length txt) (nat e + nat w)"
    using assms by (auto simp: slice_index_def min_def)
  show ?thesis by (simp add: py_slice_def a b window_spec_def)
qed

lemma priority_boost_nonneg:
  assumes "\<forall>p. priority cfg = Some p \<longrightarrow> p \<le> 4"
  shows "0 \<le> priority_boost cfg"
  using assms by (auto simp: priority_boost_def split: option.splits)

lemma candidate_Some_iff:
  "candidate rt self txt pii_type cfg pat m = Some c \<longleftrightarrow>
     (c = \<lparr>m_text = py_slice txt (fst (match_span m)) (snd (match_span m)),
            m_start = fst (match_span m), m_end = snd (match_span m),
            confidence = min 1 (calculate_context_score rt self txt (fst (match_span m))
                                  (snd (match_span m)) pii_type + priority_boost cfg),
            m_pattern = Some pat\<rparr>
      \<and> is_valid_of cfg (py_slice txt (fst (match_span m)) (snd (match_span m)))
      \<and> min 1 (calculate_context_score rt self txt (fst (match_span m))
                 (snd (match_span m)) pii_type + priority_boost cfg)
          > confidence_threshold (config self))"
  by (auto simp: candidate_def Let_def)

lemma candidate_None_iff:
  "candidate rt self txt pii_type cfg pat m = None \<longleftrightarrow>
     \<not> (is_valid_of cfg (py_slice txt (fst (match_span m)) (snd (match_span m)))
      \<and> min 1 (calculate_context_score rt self txt (fst (match_span m))
                 (snd (match_span m)) pii_type + priority_boost cfg)
          > confidence_threshold (config self))"
  by (simp add: candidate_def Let_def)

subsection \<open>Candidate generation\<close>

lemma match_loop_eq:
  "match_loop rt self txt pii_type cfg pat acc ms =
     acc @ List.map_filter (candidate rt self txt pii_type cfg pat) ms"
  by (induction ms arbitrary: acc) (auto simp: map_filter_simps split: option.splits)

lemma pattern_loop_eq:
  "pattern_loop rt self txt pii_type cfg acc ps =
     acc @ concat (map (\<lambda>pat. List.map_filter (candidate rt self txt pii_type cfg pat) (re_finditer rt pat txt)) ps)"
  by (induction ps arbitrary: acc) (auto simp: match_loop_eq)

lemma category_matches_eq:
  "category_matches rt self txt pii_type cfg =
     concat (map (\<lambda>pat. List.map_filter (candidate rt self txt pii_type cfg pat) (re_finditer rt pat txt)) (cfg_patterns cfg))"
  by (simp add: category_matches_def pattern_loop_eq)

lemma is_valid_of_iff:
  "is_valid_of cfg t = (validation cfg = None \<or> (\<exists>v. validation cfg = Some v \<and> v t = Inr True))"
  by (auto simp: is_valid_of_def split: option.splits sum.splits)

lemma set_map_filter: "set (List.map_filter f xs) = {y. \<exists>x \<in> set xs. f x = Some y}"
  by (induction xs) (auto simp: map_filter_simps split: option.splits)

subsection \<open>The worked example, evaluated\<close>

lemma demo_text_val:
  "demo_text = [117, 105, 100, 32, 49, 50, 51, 52, 32, 53, 54, 55, 56, 32, 57, 49, 50, 49]"
  by (simp add: demo_text_def lit_def)

lemma demo_slice: "py_slice demo_text 4 18 = lit ''1234 5678 9121''"
  by (simp add: demo_text_val py_slice_def slice_index_def lit_def)

lemma demo_valid: "validate_aadhaar rt (lit ''1234 5678 9121'') = Inr True"
  by (simp add: validate_aadhaar_def strip_separators_def lit_def py_isspace_def replicate12
      str_isdigit_def char_isdigit_def int_of_char_def multiplication_table_def
      permutation_table_def)

lemma demo_keywords:
  "keywords_of demo_self ''AADHAAR'' =
     map lit [''aadhaar'', ''aadhar'', ''uid'', ''unique'', ''identification'', ''uidai'',
       ''enrollment'', ''demographic'']"
  by (simp add: keywords_of_def demo_self_def init_redactor_def load_context_keywords_def)

lemma demo_context: "context_text_of demo_rt demo_self demo_text 4 18 = demo_text"
  by (simp add: context_text_of_def demo_self_def init_redactor_def default_config_def
      py_slice_def slice_index_def demo_text_val str_lower_def ascii_lower_def)

lemma demo_score: "calculate_context_score demo_rt demo_self demo_text 4 18 ''AADHAAR'' = 9 / 10"
  unfolding calculate_context_score_def demo_context demo_keywords Let_def
  by (simp add: demo_text_val lit_def)

lemma demo_threshold: "confidence_threshold (config demo_self) = 6 / 10"
  by (simp add: demo_self_def init_redactor_def default_config_def)

lemma demo_is_valid: "is_valid_of demo_cfg (lit ''1234 5678 9121'')"
  by (simp add: is_valid_of_def demo_cfg_def demo_valid)

lemma demo_boost: "priority_boost demo_cfg = 3 / 10"
  by (simp add: priority_boost_def demo_cfg_def)

lemma demo_candidate1:
  "candidate demo_rt demo_self demo_text ''AADHAAR'' demo_cfg pat \<lparr>whole = (4, 18), group1 = None\<rparr>
     = Some (demo_match pat)"
  unfolding candidate_Some_iff
  by (simp add: match_span_def demo_score demo_slice demo_is_valid demo_boost demo_threshold
      demo_match_def)

lemma demo_candidate3:
  "candidate demo_rt demo_self demo_text ''AADHAAR'' demo_cfg pat
     \<lparr>whole = (0, 18), group1 = Some (4, 18)\<rparr> = Some (demo_match pat)"
  unfolding candidate_Some_iff
  by (simp add: match_span_def demo_score demo_slice demo_is_valid demo_boost demo_threshold
      demo_match_def)

lemma demo_finditer1: "re_finditer demo_rt ''AADHAAR/1'' demo_text = [\<lparr>whole = (4, 18), group1 = None\<rparr>]"
  by (simp add: demo_rt_def ascii_rt_def demo_finditer_def)

lemma demo_finditer3:
  "re_finditer demo_rt ''AADHAAR/3'' demo_text = [\<lparr>whole = (0, 18), group1 = Some (4, 18)\<rparr>]"
  by (simp add: demo_rt_def ascii_rt_def demo_finditer_def)

lemma demo_cfg_patterns: "cfg_patterns demo_cfg = [''AADHAAR/1'', ''AADHAAR/3'']"
  by (simp add: demo_cfg_def)

lemma demo_category_matches:
  "category_matches demo_rt demo_self demo_text ''AADHAAR'' demo_cfg =
     [demo_match ''AADHAAR/1'', demo_match ''AADHAAR/3'']"
  unfolding category_matches_eq
  by (simp add: demo_cfg_patterns demo_finditer1 demo_finditer3 demo_candidate1 demo_candidate3)

lemma demo_remove:
  "remove_overlapping_matches [demo_match ''AADHAAR/1'', demo_match ''AADHAAR/3'']
     = [demo_match ''AADHAAR/1'']"
  by (simp add: remove_overlapping_matches_def sort_by_confidence_def demo_match_def
      overlapping_def)

lemma demo_keep: "keep_match demo_rt ''AADHAAR'' (demo_match pat)"
  by (simp add: keep_match_def is_false_positive_def)

lemma demo_detect:
  "detect_pii demo_rt demo_self (Some demo_text) = [(''AADHAAR'', [demo_match ''AADHAAR/1''])]"
proof -
  have p: "patterns demo_self = [(''AADHAAR'', demo_cfg)]" "nlp demo_self = None"
    by (simp_all add: demo_self_def init_redactor_def)
  have ne: "demo_text \<noteq> []" by (simp add: demo_text_val)
  show ?thesis
    by (simp add: detect_pii_def ne p demo_category_matches demo_remove refine_detections_def
        demo_keep)
qed


lemma twice_text_val:
  "twice_text = [117, 105, 100, 32, 117, 105, 100, 32, 49, 50, 51, 52, 32, 53, 54, 55, 56, 32,
     57, 49, 50, 49]"
  by (simp add: twice_text_def lit_def)

lemma twice_context: "context_text_of demo_rt demo_self twice_text 8 22 = twice_text"
  by (simp add: context_text_of_def demo_self_def init_redactor_def default_config_def
      py_slice_def slice_index_def twice_text_val str_lower_def ascii_lower_def)

lemma twice_score: "calculate_context_score demo_rt demo_self twice_text 8 22 ''AADHAAR'' = 9 / 10"
  unfolding calculate_context_score_def twice_context demo_keywords Let_def
  by (simp add: twice_text_val lit_def)

lemma twice_hits:
  "keyword_hit_count_spec (context_text_of demo_rt demo_self twice_text 8 22)
     (keywords_of demo_self ''AADHAAR'') = 2"
  unfolding twice_context demo_keywords keyword_hit_count_spec_def
  by (simp add: twice_text_val lit_def)

subsection \<open>Claims about scoring and candidate generation\<close>

text \<open>
  Claim C3, as stated: the context score is \<^verbatim>\<open>min(1.0, 0.7 + 0.2 * k)\<close> with
  \<^verbatim>\<open>k\<close> the number of occurrences of the category's keywords in the window, so a
  window with the same keyword twice scores \<^verbatim>\<open>min(1.0, 0.7 + 0.4)\<close>.  It fails: in
  \<^verbatim>\<open>uid uid 1234 5678 9121\<close> the keyword \<^verbatim>\<open>uid\<close> occurs twice around the span
  \<^verbatim>\<open>[8, 22)\<close> and no other AADHAAR keyword occurs; the score is 0.9, not 1.0.
\<close>

theorem context_score_counts_occurrences_counterexample:
  "keyword_hit_count_spec (context_text_of demo_rt demo_self twice_text 8 22)
     (keywords_of demo_self ''AADHAAR'') = 2
   \<and> calculate_context_score demo_rt demo_self twice_text 8 22 ''AADHAAR'' = 9 / 10
   \<and> calculate_context_score demo_rt demo_self twice_text 8 22 ''AADHAAR''
       \<noteq> min 1 (7 / 10 + 2 / 10 * of_nat (keyword_hit_count_spec
                     (context_text_of demo_rt demo_self twice_text 8 22)
                     (keywords_of demo_self ''AADHAAR'')))"
  by (simp add: twice_hits twice_score)

text \<open>
  Claim C3, amended: for a span inside the buffer and a non-negative window width, the
  context score is \<^verbatim>\<open>min(1.0, 0.7 + 0.2 * k)\<close> where \<^verbatim>\<open>k\<close> is the number of the
  category's keywords that occur at least once in the lower-cased window; the window
  extends the configured width on each side of the span, clamped to the buffer.
\<close>

theorem context_score_counts_keywords_present:
  assumes "0 \<le> s" and "s \<le> e" and "e \<le> int (length txt)"
    and "0 \<le> context_window (config self)"
  shows "calculate_context_score rt self txt s e pii_type =
           min 1 (7 / 10 + 2 / 10 * of_nat (keywords_present
             (str_lower rt (window_spec txt (nat s) (nat e) (nat (context_window (config self)))))
             (keywords_of self pii_type)))"
  unfolding context_score_closed context_text_of_def Let_def
  using slice_window[OF assms] by simp

theorem context_score_counts_keywords_present_witness:
  "calculate_context_score demo_rt demo_self demo_text 4 18 ''AADHAAR'' =
     min 1 (7 / 10 + 2 / 10 * of_nat (keywords_present
       (str_lower demo_rt (window_spec demo_text 4 18 150)) (keywords_of demo_self ''AADHAAR'')))"
proof -
  have w: "context_window (config demo_self) = 150"
    by (simp add: demo_self_def init_redactor_def default_config_def)
  have l: "(18::int) \<le> int (length demo_text)" by (simp add: demo_text_val)
  show ?thesis
    using context_score_counts_keywords_present[of 4 18 demo_text demo_self demo_rt "''AADHAAR''"] l
    by (simp add: w)
qed

text \<open>
  Claim C4.  A record is among the candidates of a category exactly when it comes from a
  match of one of the category's patterns, carries the text and offsets of group 1 where
  the pattern has a group and of the whole match otherwise, has final confidence
  \<^verbatim>\<open>min(1.0, contextScore + (4 - priority) * 0.1)\<close> (priority 3 when missing), the
  validator is missing or returned true on the text, and the final confidence is strictly
  greater than the configured threshold.
\<close>

theorem candidate_emitted_iff:
  "c \<in> set (category_matches rt self txt pii_type cfg) \<longleftrightarrow>
     (\<exists>pat \<in> set (cfg_patterns cfg). \<exists>m \<in> set (re_finditer rt pat txt).
        \<exists>s e fc. (s, e) = (case group1 m of Some g \<Rightarrow> g | None \<Rightarrow> whole m)
          \<and> fc = min 1 (calculate_context_score rt self txt s e pii_type
                          + of_int (4 - (case priority cfg of Some p \<Rightarrow> p | None \<Rightarrow> 3)) * (1 / 10))
          \<and> c = \<lparr>m_text = py_slice txt s e, m_start = s, m_end = e, confidence = fc,
                  m_pattern = Some pat\<rparr>
          \<and> (validation cfg = None \<or> (\<exists>v. validation cfg = Some v \<and> v (py_slice txt s e) = Inr True))
          \<and> fc > confidence_threshold (config self))"
  (is "?L \<longleftrightarrow> ?R")
proof
  assume ?L
  then obtain pat m where pm: "pat \<in> set (cfg_patterns cfg)" "m \<in> set (re_finditer rt pat txt)"
    and cs: "candidate rt self txt pii_type cfg pat m = Some c"
    by (auto simp: category_matches_eq set_map_filter)
  obtain s e where se: "match_span m = (s, e)" by (cases "match_span m")
  from cs show ?R
    unfolding candidate_Some_iff se fst_conv snd_conv is_valid_of_iff
    using pm se by (intro bexI[of _ pat] bexI[of _ m] exI[of _ s] exI[of _ e])
      (auto simp: match_span_def priority_boost_def)
next
  assume ?R
  then obtain pat m s e fc where pm: "pat \<in> set (cfg_patterns cfg)" "m \<in> set (re_finditer rt pat txt)"
    and se: "match_span m = (s, e)"
    and rest: "fc = min 1 (calculate_context_score rt self txt s e pii_type + priority_boost cfg)"
      "c = \<lparr>m_text = py_slice txt s e, m_start = s, m_end = e, confidence = fc, m_pattern = Some pat\<rparr>"
      "is_valid_of cfg (py_slice txt s e)" "fc > confidence_threshold (config self)"
    unfolding is_valid_of_iff[symmetric] match_span_def[symmetric] priority_boost_def[symmetric]
    by (metis (no_types, lifting))
  have "candidate rt self txt pii_type cfg pat m = Some c"
    unfolding candidate_Some_iff se fst_conv snd_conv using rest by simp
  with pm show ?L by (auto simp: category_matches_eq set_map_filter)
qed



theorem candidate_emitted_iff_witness:
  "demo_match ''AADHAAR/3'' \<in> set (category_matches demo_rt demo_self demo_text ''AADHAAR'' demo_cfg)
   \<and> (\<exists>pat \<in> set (cfg_patterns demo_cfg). \<exists>m \<in> set (re_finditer demo_rt pat demo_text).
        \<exists>s e fc. (s, e) = (case group1 m of Some g \<Rightarrow> g | None \<Rightarrow> whole m)
          \<and> fc = min 1 (calculate_context_score demo_rt demo_self demo_text s e ''AADHAAR''
                          + of_int (4 - (case priority demo_cfg of Some p \<Rightarrow> p | None \<Rightarrow> 3))
                            * (1 / 10))
          \<and> demo_match ''AADHAAR/3'' = \<lparr>m_text = py_slice demo_text s e, m_start = s,
                  m_end = e, confidence = fc, m_pattern = Some pat\<rparr>
          \<and> (validation demo_cfg = None
               \<or> (\<exists>v. validation demo_cfg = Some v \<and> v (py_slice demo_text s e) = Inr True))
          \<and> fc > confidence_threshold (config demo_self))"
proof -
  have m: "demo_match ''AADHAAR/3''
             \<in> set (category_matches demo_rt demo_self demo_text ''AADHAAR'' demo_cfg)"
    by (simp add: demo_category_matches)
  show ?thesis
    using m candidate_emitted_iff[of "demo_match ''AADHAAR/3''" demo_rt demo_self demo_text
        "''AADHAAR''" demo_cfg]
    by blast
qed

text \<open>
  Claim C10.  The context score lies in \<^verbatim>\<open>[0.7, 1.0]\<close> for every text, span and
  category; with a priority tier of at most 4 the boost is non-negative and the final
  confidence is at least 0.7; the default threshold 0.6 is below that, so under the default
  configuration a match yields a candidate exactly when its validator passes.
\<close>

theorem default_threshold_never_rejects:
  assumes "\<forall>p. priority cfg = Some p \<longrightarrow> p \<le> 4"
    and "config self = default_config"
  shows "7 / 10 \<le> calculate_context_score rt self txt s e pii_type
       \<and> calculate_context_score rt self txt s e pii_type \<le> 1
       \<and> 7 / 10 \<le> min 1 (calculate_context_score rt self txt s e pii_type + priority_boost cfg)
       \<and> confidence_threshold (config self) < 7 / 10
       \<and> (candidate rt self txt pii_type cfg pat m \<noteq> None) =
           is_valid_of cfg (py_slice txt (fst (match_span m)) (snd (match_span m)))"
proof -
  have b: "0 \<le> priority_boost cfg" by (rule priority_boost_nonneg[OF assms(1)])
  have r: "7 / 10 \<le> calculate_context_score rt self txt s e pii_type"
      "calculate_context_score rt self txt s e pii_type \<le> 1" for s e
    using context_score_range by blast+
  have f: "7 / 10 \<le> min 1 (calculate_context_score rt self txt s e pii_type + priority_boost cfg)" for s e
    using r[of s e] b by (simp add: min_def)
  have t: "confidence_threshold (config self) = 6 / 10"
    by (simp add: assms(2) default_config_def)
  have g: "confidence_threshold (config self)
            < min 1 (calculate_context_score rt self txt s e pii_type + priority_boost cfg)" for s e
    using f[of s e] unfolding t by linarith
  have c: "(candidate rt self txt pii_type cfg pat m \<noteq> None) =
           is_valid_of cfg (py_slice txt (fst (match_span m)) (snd (match_span m)))"
    unfolding candidate_None_iff using g by simp
  show ?thesis using r f t c by simp
qed


theorem default_threshold_never_rejects_witness:
  "7 / 10 \<le> calculate_context_score demo_rt demo_self demo_text 4 18 ''AADHAAR''
   \<and> calculate_context_score demo_rt demo_self demo_text 4 18 ''AADHAAR'' \<le> 1
   \<and> 7 / 10 \<le> min 1 (calculate_context_score demo_rt demo_self demo_text 4 18 ''AADHAAR''
                        + priority_boost demo_cfg)
   \<and> confidence_threshold (config demo_self) < 7 / 10
   \<and> (candidate demo_rt demo_self demo_text ''AADHAAR'' demo_cfg ''AADHAAR/1''
         \<lparr>whole = (4, 18), group1 = None\<rparr> \<noteq> None) =
       is_valid_of demo_cfg (py_slice demo_text
         (fst (match_span \<lparr>whole = (4, 18), group1 = None\<rparr>))
         (snd (match_span \<lparr>whole = (4, 18), group1 = None\<rparr>)))"
proof -
  have p: "\<forall>p. priority demo_cfg = Some p \<longrightarrow> p \<le> 4" by (simp add: demo_cfg_def)
  have c: "config demo_self = default_config" by (simp add: demo_self_def init_redactor_def)
  show ?thesis by (rule default_threshold_never_rejects[OF p c])
qed

subsection \<open>Containment of validator exceptions\<close>

lemma is_valid_of_contained: "is_valid_of (contain_cfg cfg) t = is_valid_of cfg t"
  by (auto simp: is_valid_of_def contain_cfg_def contain_validator_def split: option.splits sum.splits)

lemma priority_boost_contained: "priority_boost (contain_cfg cfg) = priority_boost cfg"
  by (simp add: priority_boost_def contain_cfg_def)

lemma score_patterns_update:
  "calculate_context_score rt (self\<lparr>patterns := ps\<rparr>) txt s e k = calculate_context_score rt self txt s e k"
  by (simp add: calculate_context_score_def context_text_of_def keywords_of_def)

lemma candidate_contained:
  "candidate rt (self\<lparr>patterns := ps\<rparr>) txt k (contain_cfg cfg) pat = candidate rt self txt k cfg pat"
  by (rule ext) (simp add: candidate_def is_valid_of_contained priority_boost_contained score_patterns_update)

lemma cfg_patterns_contained: "cfg_patterns (contain_cfg cfg) = cfg_patterns cfg"
  by (simp add: contain_cfg_def)

lemma category_matches_contained:
  "category_matches rt (self\<lparr>patterns := ps\<rparr>) txt k (contain_cfg cfg) = category_matches rt self txt k cfg"
  by (simp add: category_matches_eq candidate_contained cfg_patterns_contained)

lemma stage1_contained:
  "stage1 rt (self\<lparr>patterns := ps\<rparr>) txt acc (map (\<lambda>(k, c). (k, contain_cfg c)) reg)
     = stage1 rt self txt acc reg"
  by (induction reg arbitrary: acc) (auto simp: category_matches_contained)

text \<open>
  Claim C2.  When the validator of a category raises on the text of a match, that match
  yields no candidate; and \<^verbatim>\<open>detect_pii\<close> returns, for every registry and every
  input, the dictionary it returns when each validator is replaced by one that answers
  \<^verbatim>\<open>False\<close> wherever the original raises.  The validator call and the call of the NLP
  model are the only places of \<^verbatim>\<open>detect_pii\<close> that can raise, and both are enclosed in
  \<^verbatim>\<open>try\<close>/\<^verbatim>\<open>except\<close>, so the embedding of \<^verbatim>\<open>detect_pii\<close> is a total function
  into dictionaries.
\<close>

theorem validator_exception_contained:
  "(validation cfg = Some v
      \<and> v (py_slice txt (fst (match_span m)) (snd (match_span m))) = Inl err
     \<longrightarrow> candidate rt self txt pii_type cfg pat m = None)
   \<and> detect_pii rt self text_opt =
       detect_pii rt (self\<lparr>patterns := map (\<lambda>(k, c). (k, contain_cfg c)) (patterns self)\<rparr>) text_opt"
proof -
  have a: "validation cfg = Some v
      \<and> v (py_slice txt (fst (match_span m)) (snd (match_span m))) = Inl err
     \<longrightarrow> candidate rt self txt pii_type cfg pat m = None"
    by (simp add: candidate_None_iff is_valid_of_def)
  have b: "detect_pii rt self text_opt =
       detect_pii rt (self\<lparr>patterns := map (\<lambda>(k, c). (k, contain_cfg c)) (patterns self)\<rparr>) text_opt"
    by (simp add: detect_pii_def stage1_contained split: option.splits)
  show ?thesis using a b by blast
qed

theorem validator_exception_contained_witness:
  "candidate demo_rt demo_self demo_text ''AADHAAR'' raising_cfg ''AADHAAR/1'' \<lparr>whole = (4, 18), group1 = None\<rparr> = None
  \<and> detect_pii demo_rt (demo_self\<lparr>patterns := [(''AADHAAR'', raising_cfg)]\<rparr>) (Some demo_text)
     = detect_pii demo_rt (demo_self\<lparr>patterns := [(''AADHAAR'', contain_cfg raising_cfg)]\<rparr>) (Some demo_text)"
proof -
  have v: "validation raising_cfg = Some (\<lambda>t. Inl TypeError)" by (simp add: raising_cfg_def)
  show ?thesis
    using validator_exception_contained[of raising_cfg "\<lambda>t. Inl TypeError" demo_text "\<lparr>whole = (4, 18), group1 = None\<rparr>" TypeError demo_rt demo_self "''AADHAAR''" "''AADHAAR/1''" "Some demo_text"]
     validator_exception_contained[of raising_cfg "\<lambda>t. Inl TypeError" demo_text "\<lparr>whole = (4, 18), group1 = None\<rparr>" TypeError demo_rt "demo_self\<lparr>patterns := [(''AADHAAR'', raising_cfg)]\<rparr>" "''AADHAAR''" "''AADHAAR/1''" "Some demo_text"]
    by (simp add: v)
qed

subsection \<open>Overlap removal\<close>

lemma overlapping_iff_meet:
  assumes "m_start m < m_end m" "m_start a < m_end a"
  shows "overlapping m a \<longleftrightarrow> span_set m \<inter> span_set a \<noteq> {}"
  using assms by (auto simp: overlapping_def span_set_def)


lemma filter_loop_spec_greedy:
  assumes "\<forall>m \<in> set acc \<union> set ms. m_start m < m_end m"
  shows "filter_loop acc ms = spec_greedy acc ms"
  using assms
proof (induction ms arbitrary: acc)
  case Nil
  then show ?case by simp
next
  case (Cons m ms)
  have e: "list_ex (overlapping m) acc \<longleftrightarrow> \<not> list_all (\<lambda>a. span_set m \<inter> span_set a = {}) acc"
    using Cons.prems by (auto simp: list_ex_iff list_all_iff overlapping_iff_meet)
  show ?case
    using Cons.prems by (simp add: e Cons.IH)
qed

lemma sort_by_confidence_props:
  "sorted_wrt (\<lambda>a b. confidence a \<ge> confidence b) (sort_by_confidence ms)
   \<and> mset (sort_by_confidence ms) = mset ms
   \<and> (\<forall>c. filter (\<lambda>x. confidence x = c) (sort_by_confidence ms) = filter (\<lambda>x. confidence x = c) ms)"
proof -
  have s: "sorted (map (\<lambda>x. - confidence x) (sort_by_confidence ms))"
    by (simp add: sort_by_confidence_def)
  have 1: "sorted_wrt (\<lambda>a b. confidence a \<ge> confidence b) (sort_by_confidence ms)"
    using s by (simp add: sorted_map sorted_wrt_iff_nth_less)
  have 3: "filter (\<lambda>x. confidence x = c) (sort_by_confidence ms) = filter (\<lambda>x. confidence x = c) ms" for c
    using sort_key_stable[of "\<lambda>x. - confidence x" "- c" ms] by (simp add: sort_by_confidence_def)
  show ?thesis using 1 3 by (simp add: sort_by_confidence_def)
qed

lemma mb_code: "remove_overlapping_matches [mobile_bare, mobile_prefixed] = [mobile_bare]"
  by (simp add: remove_overlapping_matches_def sort_by_confidence_def mobile_bare_def mobile_prefixed_def overlapping_def)

lemma mb_spec: "spec_resolve [mobile_bare, mobile_prefixed] = [mobile_prefixed]"
  by (simp add: spec_resolve_def spec_order_def mobile_bare_def mobile_prefixed_def span_set_def less_eq_prod_def)

text \<open>
  Claim C5, as stated: overlap removal equals the reference procedure that orders by
  confidence descending, then earliest start, then longest span, and accepts greedily.
  It fails on the two MOBILE candidates of \<^verbatim>\<open>91 9876543210\<close>: both have confidence
  1.0; the source keeps the one generated first, \<^verbatim>\<open>[3, 13)\<close>, the reference keeps the
  one that starts first, \<^verbatim>\<open>[0, 13)\<close>.
\<close>

theorem overlap_removal_tie_break_counterexample:
  "remove_overlapping_matches [mobile_bare, mobile_prefixed] = [mobile_bare]
   \<and> spec_resolve [mobile_bare, mobile_prefixed] = [mobile_prefixed]
   \<and> remove_overlapping_matches [mobile_bare, mobile_prefixed]
       \<noteq> spec_resolve [mobile_bare, mobile_prefixed]"
  unfolding mb_code mb_spec by (simp add: mobile_bare_def mobile_prefixed_def)

text \<open>
  Claim C5, amended: for candidates with non-empty spans, overlap removal equals the
  greedy acceptance (a candidate is accepted iff its interval meets no accepted interval)
  over the candidates ordered by confidence descending, candidates of equal confidence
  staying in the order in which they were generated.
\<close>

theorem overlap_removal_stable_greedy:
  assumes "\<forall>m \<in> set ms. m_start m < m_end m"
  shows "remove_overlapping_matches ms = stable_resolve ms
   \<and> sorted_wrt (\<lambda>a b. confidence a \<ge> confidence b) (sort_by_confidence ms)
   \<and> mset (sort_by_confidence ms) = mset ms
   \<and> (\<forall>c. filter (\<lambda>x. confidence x = c) (sort_by_confidence ms) = filter (\<lambda>x. confidence x = c) ms)"
proof -
  have "set (sort_by_confidence ms) = set ms" by (simp add: sort_by_confidence_def)
  then have "filter_loop [] (sort_by_confidence ms) = spec_greedy [] (sort_by_confidence ms)"
    using assms by (intro filter_loop_spec_greedy) simp
  then have "remove_overlapping_matches ms = stable_resolve ms"
    by (simp add: remove_overlapping_matches_def stable_resolve_def sort_by_confidence_def)
  then show ?thesis using sort_by_confidence_props[of ms] by simp
qed

theorem overlap_removal_stable_greedy_witness:
  "remove_overlapping_matches [demo_match ''AADHAAR/1'', demo_match ''AADHAAR/3'']
     = stable_resolve [demo_match ''AADHAAR/1'', demo_match ''AADHAAR/3'']
   \<and> sorted_wrt (\<lambda>a b. confidence a \<ge> confidence b)
        (sort_by_confidence [demo_match ''AADHAAR/1'', demo_match ''AADHAAR/3''])
   \<and> mset (sort_by_confidence [demo_match ''AADHAAR/1'', demo_match ''AADHAAR/3''])
       = mset [demo_match ''AADHAAR/1'', demo_match ''AADHAAR/3'']
   \<and> (\<forall>c. filter (\<lambda>x. confidence x = c)
              (sort_by_confidence [demo_match ''AADHAAR/1'', demo_match ''AADHAAR/3''])
            = filter (\<lambda>x. confidence x = c) [demo_match ''AADHAAR/1'', demo_match ''AADHAAR/3''])"
proof -
  have h: "\<forall>m \<in> set [demo_match ''AADHAAR/1'', demo_match ''AADHAAR/3'']. m_start m < m_end m"
    by (simp add: demo_match_def)
  show ?thesis by (rule overlap_removal_stable_greedy[OF h])
qed

subsection \<open>Non-overlap of the spans of a category\<close>














lemma score_nlp_update:
  "calculate_context_score rt (self\<lparr>nlp := x\<rparr>) txt s e k = calculate_context_score rt self txt s e k"
  by (simp add: calculate_context_score_def context_text_of_def keywords_of_def)

lemma candidate_nlp_update:
  "candidate rt (self\<lparr>nlp := x\<rparr>) txt k cfg pat = candidate rt self txt k cfg pat"
  by (rule ext) (simp add: candidate_def score_nlp_update)

lemma category_matches_nlp_update:
  "category_matches rt (self\<lparr>nlp := x\<rparr>) txt k cfg = category_matches rt self txt k cfg"
  by (simp add: category_matches_eq candidate_nlp_update)

lemma demo_stage1:
  "stage1 demo_rt (demo_self\<lparr>nlp := x\<rparr>) demo_text [] [(''AADHAAR'', demo_cfg)]
     = [(''AADHAAR'', [demo_match ''AADHAAR/1''])]"
  by (simp add: category_matches_nlp_update demo_category_matches demo_remove)




lemma registry_keys_not_nlp: "\<forall>k \<in> fst ` set registry_priorities. take 4 k \<noteq> ''NLP_''"
  by (simp add: registry_priorities_def)

lemma registry_priorities_range: "\<forall>(k, p) \<in> set registry_priorities. 1 \<le> p \<and> p \<le> 3"
  by (simp add: registry_priorities_def)









subsection \<open>Text masking\<close>

lemma slice_index_in: "0 \<le> i \<Longrightarrow> i \<le> int n \<Longrightarrow> slice_index n i = nat i"
  by (auto simp: slice_index_def)

lemma mask_span_eq:
  assumes "in_bounds t m"
  shows "mask_span t m = take (nat (m_start m)) t @ replicate (nat (m_end m) - nat (m_start m)) mask_char
           @ drop (nat (m_end m)) t"
proof -
  have a: "slice_index (length t) (m_start m) = nat (m_start m)"
    using assms by (intro slice_index_in) (auto simp: in_bounds_def)
  have b: "slice_index (length t) (m_end m) = nat (m_end m)"
    using assms by (intro slice_index_in) (auto simp: in_bounds_def)
  have c: "nat (m_end m - m_start m) = nat (m_end m) - nat (m_start m)"
    using assms by (auto simp: in_bounds_def)
  show ?thesis by (simp add: mask_span_def py_slice_to_def py_slice_from_def a b c)
qed

lemma mask_span_length:
  assumes "in_bounds t m"
  shows "length (mask_span t m) = length t"
  using assms unfolding mask_span_eq[OF assms] by (auto simp: in_bounds_def)

lemma mask_span_nth:
  assumes "in_bounds t m" "i < length t"
  shows "mask_span t m ! i = (if m_start m \<le> int i \<and> int i < m_end m then mask_char else t ! i)"
proof -
  let ?s = "nat (m_start m)" and ?e = "nat (m_end m)"
  have se: "?s \<le> ?e" "?e \<le> length t" using assms by (auto simp: in_bounds_def)
  have nn: "0 \<le> m_start m" "0 \<le> m_end m" using assms by (auto simp: in_bounds_def)
  consider "i < ?s" | "?s \<le> i" "i < ?e" | "?e \<le> i" by linarith
  then show ?thesis
  proof cases
    case 1
    then show ?thesis unfolding mask_span_eq[OF assms(1)] using se nn assms(2)
      by (auto simp: nth_append)
  next
    case 2
    then show ?thesis unfolding mask_span_eq[OF assms(1)] using se nn assms(2)
      by (auto simp: nth_append)
  next
    case 3
    then show ?thesis unfolding mask_span_eq[OF assms(1)] using se nn assms(2)
      by (auto simp: nth_append)
  qed
qed

lemma in_bounds_length: "length t' = length t \<Longrightarrow> in_bounds t' m = in_bounds t m"
  by (simp add: in_bounds_def)

lemma mask_loop_props:
  assumes "\<forall>m \<in> set ms. in_bounds t m"
  shows "length (mask_loop t ms) = length t \<and>
         (\<forall>i < length t. mask_loop t ms ! i =
            (if \<exists>m \<in> set ms. m_start m \<le> int i \<and> int i < m_end m then mask_char else t ! i))"
  using assms
proof (induction ms arbitrary: t)
  case Nil
  then show ?case by simp
next
  case (Cons m ms)
  let ?t = "mask_span t m"
  have bm: "in_bounds t m" using Cons.prems by simp
  have len: "length ?t = length t" by (rule mask_span_length[OF bm])
  have "\<forall>m' \<in> set ms. in_bounds ?t m'"
    using Cons.prems by (simp add: in_bounds_length[OF len])
  from Cons.IH[OF this] have ih: "length (mask_loop ?t ms) = length t"
    "\<And>i. i < length t \<Longrightarrow> mask_loop ?t ms ! i =
            (if \<exists>m \<in> set ms. m_start m \<le> int i \<and> int i < m_end m then mask_char else ?t ! i)"
    by (simp_all add: len)
  show ?case
    using ih by (auto simp: mask_span_nth[OF bm])
qed

lemma masked_region:
  assumes "\<forall>m \<in> set ms. in_bounds t m" "m \<in> set ms"
  shows "py_slice (mask_loop t ms) (m_start m) (m_end m) = replicate (nat (m_end m - m_start m)) mask_char"
proof -
  let ?out = "mask_loop t ms"
  have bm: "in_bounds t m" using assms by simp
  have len: "length ?out = length t" using mask_loop_props[OF assms(1)] by simp
  have a: "slice_index (length ?out) (m_start m) = nat (m_start m)"
    using bm unfolding len by (intro slice_index_in) (auto simp: in_bounds_def)
  have b: "slice_index (length ?out) (m_end m) = nat (m_end m)"
    using bm unfolding len by (intro slice_index_in) (auto simp: in_bounds_def)
  have c: "nat (m_end m - m_start m) = nat (m_end m) - nat (m_start m)"
    using bm by (auto simp: in_bounds_def)
  have se: "nat (m_start m) \<le> nat (m_end m)" "nat (m_end m) \<le> length t" "0 \<le> m_start m"
    using bm by (auto simp: in_bounds_def)
  show ?thesis
    unfolding py_slice_def a b c
  proof (rule nth_equalityI)
    show "length (take (nat (m_end m) - nat (m_start m)) (drop (nat (m_start m)) ?out))
        = length (replicate (nat (m_end m) - nat (m_start m)) mask_char)"
      using se by (simp add: len)
  next
    fix i assume "i < length (take (nat (m_end m) - nat (m_start m)) (drop (nat (m_start m)) ?out))"
    then have i: "i < nat (m_end m) - nat (m_start m)" by simp
    then have j: "nat (m_start m) + i < length t" using se by linarith
    have "m_start m \<le> int (nat (m_start m) + i) \<and> int (nat (m_start m) + i) < m_end m"
      using i se by linarith
    then have "?out ! (nat (m_start m) + i) = mask_char"
      using mask_loop_props[OF assms(1)] j assms(2) by auto
    then show "take (nat (m_end m) - nat (m_start m)) (drop (nat (m_start m)) ?out) ! i
        = replicate (nat (m_end m) - nat (m_start m)) mask_char ! i"
      using i j by (simp add: len)
  qed
qed

lemma redaction_order_props:
  "sorted_wrt (\<lambda>a b. m_start a \<ge> m_start b) (redaction_order pii_data)
   \<and> mset (redaction_order pii_data) = mset (all_matches_of pii_data)"
proof -
  have "sorted (map (\<lambda>x. - m_start x) (redaction_order pii_data))"
    by (simp add: redaction_order_def)
  then have "sorted_wrt (\<lambda>a b. m_start a \<ge> m_start b) (redaction_order pii_data)"
    by (simp add: sorted_map sorted_wrt_iff_nth_less)
  then show ?thesis by (simp add: redaction_order_def)
qed

text \<open>
  Claim C6.  For spans that lie inside the text (\<^verbatim>\<open>0 <= start <= end <= len(text)\<close>,
  as every resolved span does), the redacted text has the length of the input, the region
  of every span consists of the mask character only, repeated \<^verbatim>\<open>end - start\<close> times,
  and the replacements are applied to all spans in order of decreasing start offset.
\<close>

theorem text_masking_preserves_length:
  assumes "\<forall>m \<in> set (all_matches_of pii_data).
             0 \<le> m_start m \<and> m_start m \<le> m_end m \<and> m_end m \<le> int (length txt)"
  shows "length (redacted_text_of txt pii_data) = length txt
    \<and> (\<forall>m \<in> set (all_matches_of pii_data).
          py_slice (redacted_text_of txt pii_data) (m_start m) (m_end m)
            = replicate (nat (m_end m - m_start m)) mask_char)
    \<and> sorted_wrt (\<lambda>a b. m_start a \<ge> m_start b) (redaction_order pii_data)
    \<and> mset (redaction_order pii_data) = mset (all_matches_of pii_data)"
proof -
  have s: "set (redaction_order pii_data) = set (all_matches_of pii_data)"
    by (simp add: redaction_order_def)
  have b: "\<forall>m \<in> set (redaction_order pii_data). in_bounds txt m"
    using assms unfolding s by (simp add: in_bounds_def)
  have l: "length (redacted_text_of txt pii_data) = length txt"
    using mask_loop_props[OF b] by (simp add: redacted_text_of_def)
  have r: "\<forall>m \<in> set (all_matches_of pii_data).
          py_slice (redacted_text_of txt pii_data) (m_start m) (m_end m)
            = replicate (nat (m_end m - m_start m)) mask_char"
    using masked_region[OF b] unfolding s by (simp add: redacted_text_of_def)
  show ?thesis using l r redaction_order_props[of pii_data] by blast
qed

theorem text_masking_preserves_length_witness:
  "length (redacted_text_of demo_text [(''AADHAAR'', [demo_match ''AADHAAR/1''])]) = length demo_text
   \<and> py_slice (redacted_text_of demo_text [(''AADHAAR'', [demo_match ''AADHAAR/1''])]) 4 18
       = replicate 14 mask_char"
proof -
  have h: "\<forall>m \<in> set (all_matches_of [(''AADHAAR'', [demo_match ''AADHAAR/1''])]).
             0 \<le> m_start m \<and> m_start m \<le> m_end m \<and> m_end m \<le> int (length demo_text)"
    by (simp add: all_matches_of_def demo_match_def demo_text_val)
  show ?thesis
    using text_masking_preserves_length[OF h] by (simp add: all_matches_of_def demo_match_def)
qed

subsection \<open>The redaction log\<close>

lemma log_entry_scrub:
  "log_entry_of now i o' pii_data = log_entry_of now i o' (map (\<lambda>(k, v). (k, map scrub v)) pii_data)"
  by (auto simp: log_entry_of_def scrub_def comp_def split_def intro!: arg_cong[of _ _ sum_list])

lemma total_count: "sum_list (map (\<lambda>(k, v). length v) pii_data) = length (all_matches_of pii_data)"
  by (induction pii_data) (auto simp: all_matches_of_def)

lemma demo_log_empty: "redaction_log demo_self = []"
  by (simp add: demo_self_def init_redactor_def)

lemma detect_pii_empty: "detect_pii rt self None = [] \<and> detect_pii rt self (Some []) = []"
  by (simp add: detect_pii_def)

lemma empty_text_no_entry:
  "extract input_path = None \<or> extract input_path = Some [] \<Longrightarrow>
   redaction_log (fst (redact_text rt extract fs now self input_path output_path))
     = redaction_log self"
  by (auto simp: redact_text_def detect_pii_empty split: option.splits)

lemma redact_text_frame:
  "redact_text rt extract fs now self input_path output_path =
     redact_with rt extract fs (write_redacted fs (extract input_path) output_path) now self
       input_path output_path"
  by (simp add: redact_text_def redact_with_def write_redacted_def Let_def split: option.splits)

lemma redact_with_log:
  "redaction_log (fst (redact_with rt extract fs applicator now self input_path output_path)) =
     (if detect_pii rt self (extract input_path) \<noteq> []
         \<and> \<not> isl (applicator (detect_pii rt self (extract input_path)))
      then redaction_log self
             @ [log_entry_of now input_path output_path (detect_pii rt self (extract input_path))]
      else redaction_log self)"
  by (auto simp: redact_with_def Let_def log_redaction_def split: option.splits sum.splits)

text \<open>
  Claim C8, as stated: every invocation of a redaction, also of a document in which no
  PII is detected, appends exactly one log entry.  It fails: for an empty text file
  \<^verbatim>\<open>extract_text_from_file\<close> returns the empty string, \<^verbatim>\<open>detect_pii\<close> returns the
  empty dictionary, and \<^verbatim>\<open>_redact_text\<close> copies the file and returns before
  \<^verbatim>\<open>_log_redaction\<close> is reached; the log keeps its length.  This is so for every
  registry and regular-expression engine (lemma \<open>empty_text_no_entry\<close>).
\<close>

theorem no_pii_no_log_entry_counterexample:
  "redaction_log (fst (redact_text demo_rt (\<lambda>p. Some []) fs_ok ''2025-01-01T00:00:00'' demo_self
       ''in.txt'' ''out.txt'')) = []
   \<and> snd (redact_text demo_rt (\<lambda>p. Some []) fs_ok ''2025-01-01T00:00:00'' demo_self
       ''in.txt'' ''out.txt'') = Inr (CopyFile ''in.txt'' ''out.txt'')
   \<and> length (redaction_log (fst (redact_text demo_rt (\<lambda>p. Some []) fs_ok ''2025-01-01T00:00:00''
       demo_self ''in.txt'' ''out.txt'')))
      \<noteq> length (redaction_log demo_self) + 1"
  by (simp add: redact_text_def detect_pii_empty demo_log_empty fs_ok_def)

text \<open>
  Claim C8, amended: a redaction operation appends exactly one log entry, with the number
  of matches per category and their total, when at least one category is detected and the
  rewriting of the document completes; it appends none when nothing is detected (the file
  is copied) or when the rewriting raises.  This is the frame shared by the five
  applicators, of which \<^verbatim>\<open>_redact_text\<close> is the instance that masks and writes the
  text.  An entry holds no matched text: every text field of its details is the constant
  \<^verbatim>\<open>***REDACTED***\<close>, and the entry is the same when text, offsets and pattern of
  every match are erased (it depends on the matches only through their categories, counts
  and confidences).
\<close>

theorem log_entry_appended_iff_pii:
  "redaction_log (fst (redact_with rt extract fs applicator now self input_path output_path)) =
     (if detect_pii rt self (extract input_path) \<noteq> []
         \<and> \<not> isl (applicator (detect_pii rt self (extract input_path)))
      then redaction_log self
             @ [log_entry_of now input_path output_path (detect_pii rt self (extract input_path))]
      else redaction_log self)
   \<and> redact_text rt extract fs now self input_path output_path =
       redact_with rt extract fs (write_redacted fs (extract input_path) output_path) now self
         input_path output_path
   \<and> pii_detected (log_entry_of now input_path output_path pii_data)
       = map (\<lambda>(k, v). (k, length v)) pii_data
   \<and> total_pii_count (log_entry_of now input_path output_path pii_data)
       = length (all_matches_of pii_data)
   \<and> (\<forall>(k, ds) \<in> set (pii_details (log_entry_of now input_path output_path pii_data)).
         \<forall>(t, c) \<in> set ds. t = lit ''***REDACTED***'')
   \<and> log_entry_of now input_path output_path pii_data
       = log_entry_of now input_path output_path (map (\<lambda>(k, v). (k, map scrub v)) pii_data)"
proof -
  have b: "pii_detected (log_entry_of now input_path output_path pii_data)
       = map (\<lambda>(k, v). (k, length v)) pii_data"
    by (simp add: log_entry_of_def)
  have c: "total_pii_count (log_entry_of now input_path output_path pii_data)
       = length (all_matches_of pii_data)"
    by (simp add: log_entry_of_def total_count)
  have d: "\<forall>(k, ds) \<in> set (pii_details (log_entry_of now input_path output_path pii_data)).
         \<forall>(t, c) \<in> set ds. t = lit ''***REDACTED***''"
    by (auto simp: log_entry_of_def)
  show ?thesis
    using redact_with_log[of rt "extract" fs applicator now self input_path output_path]
      redact_text_frame[of rt "extract" fs now self input_path output_path]
      b c d log_entry_scrub[of now input_path output_path pii_data]
    by blast
qed

theorem log_entry_appended_iff_pii_witness:
  "redaction_log (fst (redact_text demo_rt (\<lambda>p. Some demo_text) fs_ok ''2025-01-01T00:00:00''
       demo_self ''in.txt'' ''out.txt'')) = [demo_entry]
   \<and> redaction_log (fst (redact_text demo_rt (\<lambda>p. Some demo_text) fs_readonly
       ''2025-01-01T00:00:00'' demo_self ''in.txt'' ''out.txt'')) = []
   \<and> pii_detected demo_entry = [(''AADHAAR'', 1)]
   \<and> total_pii_count demo_entry = 1"
proof -
  let ?pii = "[(''AADHAAR'', [demo_match ''AADHAAR/1''])]"
  note w = log_entry_appended_iff_pii[of demo_rt "\<lambda>p. Some demo_text" _ _
      "''2025-01-01T00:00:00''" demo_self "''in.txt''" "''out.txt''" ?pii]
  have ok: "\<not> isl (write_redacted fs_ok (Some demo_text) ''out.txt'' ?pii)"
    by (simp add: write_redacted_def fs_ok_def)
  have ro: "isl (write_redacted fs_readonly (Some demo_text) ''out.txt'' ?pii)"
    by (simp add: write_redacted_def fs_readonly_def)
  have f: "redact_text demo_rt (\<lambda>p. Some demo_text) fs ''2025-01-01T00:00:00'' demo_self
             ''in.txt'' ''out.txt''
           = redact_with demo_rt (\<lambda>p. Some demo_text) fs
               (write_redacted fs (Some demo_text) ''out.txt'') ''2025-01-01T00:00:00'' demo_self
               ''in.txt'' ''out.txt''" for fs
    using w[of fs "write_redacted fs (Some demo_text) ''out.txt''", THEN conjunct2, THEN conjunct1] .
  have a: "redaction_log (fst (redact_text demo_rt (\<lambda>p. Some demo_text) fs_ok
       ''2025-01-01T00:00:00'' demo_self ''in.txt'' ''out.txt'')) = [demo_entry]"
    unfolding f
    using w[of fs_ok "write_redacted fs_ok (Some demo_text) ''out.txt''", THEN conjunct1] ok
    by (simp add: demo_detect demo_log_empty demo_entry_def)
  have a': "redaction_log (fst (redact_text demo_rt (\<lambda>p. Some demo_text) fs_readonly
       ''2025-01-01T00:00:00'' demo_self ''in.txt'' ''out.txt'')) = []"
    unfolding f
    using w[of fs_readonly "write_redacted fs_readonly (Some demo_text) ''out.txt''",
        THEN conjunct1] ro
    by (simp add: demo_detect demo_log_empty)
  have b: "pii_detected demo_entry = [(''AADHAAR'', 1)]"
    using w[of fs_ok "write_redacted fs_ok (Some demo_text) ''out.txt''",
        THEN conjunct2, THEN conjunct2, THEN conjunct1]
    by (simp add: demo_entry_def)
  have c: "total_pii_count demo_entry = 1"
    using w[of fs_ok "write_redacted fs_ok (Some demo_text) ''out.txt''",
        THEN conjunct2, THEN conjunct2, THEN conjunct2, THEN conjunct1]
    by (simp add: demo_entry_def all_matches_of_def)
  show ?thesis using a a' b c by simp
qed

subsection \<open>The session summary\<close>

lemma count_loop_map_of:
  "map_of (count_loop found xs) c =
     (if c \<in> fst ` set xs \<or> map_of found c \<noteq> None
      then Some ((case map_of found c of None \<Rightarrow> 0 | Some n \<Rightarrow> n)
                  + sum_list (map snd (filter (\<lambda>p. fst p = c) xs)))
      else None)"
proof (induction xs arbitrary: found)
  case Nil
  then show ?case by (auto split: option.splits)
next
  case (Cons p xs)
  obtain k n where p: "p = (k, n)" by (cases p)
  show ?case
    by (auto simp: p Cons.IH Let_def update_conv' image_iff split: option.splits)
qed

lemma aggregate_loop_map_of:
  "map_of (aggregate_loop found entries) c =
     (if (\<exists>e \<in> set entries. c \<in> fst ` set (pii_detected e)) \<or> map_of found c \<noteq> None
      then Some ((case map_of found c of None \<Rightarrow> 0 | Some n \<Rightarrow> n)
                  + sum_list (map (\<lambda>e. category_count e c) entries))
      else None)"
proof (induction entries arbitrary: found)
  case Nil
  then show ?case by (auto split: option.splits)
next
  case (Cons e entries)
  show ?case
    unfolding aggregate_loop.simps Cons.IH count_loop_map_of
    by (auto simp: category_count_def image_iff split: option.splits)
qed

text \<open>
  Claim C9, as stated: for every session state, the empty log included, the summary holds
  the number of files processed.  It fails for the empty log: the summary is then the
  single entry \<^verbatim>\<open>message\<close>, and the key \<^verbatim>\<open>total_files_processed\<close> is absent.
\<close>

theorem empty_log_summary_counterexample:
  "redaction_log demo_self = []
   \<and> map_of (get_redaction_summary demo_self) ''total_files_processed'' = None
   \<and> map_of (get_redaction_summary demo_self) ''total_files_processed''
       \<noteq> Some (IntVal (length (redaction_log demo_self)))"
  by (simp add: get_redaction_summary_def demo_log_empty)


text \<open>
  Claim C9, amended: for a session with a non-empty log the summary holds the number of
  log entries, the sum of their total counts, and for every category that some entry
  records the sum of the entries' counts for it (no other category is listed); for the
  empty log the summary is only the message that no redaction was performed.
\<close>

theorem summary_totals_nonempty_log:
  "(redaction_log self = [] \<longrightarrow>
      get_redaction_summary self = [(''message'', StrVal (lit ''No redactions performed yet''))])
   \<and> (redaction_log self \<noteq> [] \<longrightarrow>
      map_of (get_redaction_summary self) ''total_files_processed''
        = Some (IntVal (length (redaction_log self)))
      \<and> map_of (get_redaction_summary self) ''total_pii_redacted''
        = Some (IntVal (sum_list (map total_pii_count (redaction_log self))))
      \<and> (\<exists>found. map_of (get_redaction_summary self) ''pii_types_found'' = Some (CountsVal found)
           \<and> (\<forall>c. map_of found c =
                 (if \<exists>e \<in> set (redaction_log self). c \<in> fst ` set (pii_detected e)
                  then Some (sum_list (map (\<lambda>e. category_count e c) (redaction_log self)))
                  else None))))"
  by (simp add: get_redaction_summary_def aggregate_loop_map_of)

theorem summary_totals_nonempty_log_witness:
  "map_of (get_redaction_summary (demo_self\<lparr>redaction_log := [demo_entry]\<rparr>)) ''total_files_processed''
     = Some (IntVal 1)
   \<and> map_of (get_redaction_summary (demo_self\<lparr>redaction_log := [demo_entry]\<rparr>)) ''total_pii_redacted''
     = Some (IntVal 1)
   \<and> (\<exists>found. map_of (get_redaction_summary (demo_self\<lparr>redaction_log := [demo_entry]\<rparr>))
                 ''pii_types_found'' = Some (CountsVal found)
        \<and> map_of found ''AADHAAR'' = Some 1)"
proof -
  have t: "total_pii_count demo_entry = 1" "pii_detected demo_entry = [(''AADHAAR'', 1)]"
    by (simp_all add: demo_entry_def log_entry_of_def)
  have cc: "category_count demo_entry ''AADHAAR'' = 1"
    by (simp add: category_count_def t)
  from summary_totals_nonempty_log[of "demo_self\<lparr>redaction_log := [demo_entry]\<rparr>"]
  obtain found where f: "map_of (get_redaction_summary (demo_self\<lparr>redaction_log := [demo_entry]\<rparr>))
                 ''pii_types_found'' = Some (CountsVal found)"
     "\<forall>c. map_of found c =
                 (if \<exists>e \<in> set [demo_entry]. c \<in> fst ` set (pii_detected e)
                  then Some (sum_list (map (\<lambda>e. category_count e c) [demo_entry]))
                  else None)" 
    and g: "map_of (get_redaction_summary (demo_self\<lparr>redaction_log := [demo_entry]\<rparr>)) ''total_files_processed'' = Some (IntVal 1)"
     "map_of (get_redaction_summary (demo_self\<lparr>redaction_log := [demo_entry]\<rparr>)) ''total_pii_redacted'' = Some (IntVal 1)"
    by (auto simp: t)
  from f(2) have "map_of found ''AADHAAR'' = Some 1" by (simp add: t cc)
  with f(1) g show ?thesis by blast
qed

subsection \<open>The earlier variant\<close>

text \<open>
  Where \<^verbatim>\<open>src/abcd.py\<close> departs from the engine above: its validator accepts the
  same repeated-digit text and raises on letters (the newer one answers \<^verbatim>\<open>False\<close>);
  its \<^verbatim>\<open>detect_pii\<close> lets a validator exception through; its scorer adds 0.3 per
  match of a context pattern; its summary has totals also for the empty log and never a
  per-category total.
\<close>

lemma legacy_validate_accepts_threes:
  "legacy_validate_aadhaar rt (lit ''3333 3333 3333'') = Inr True"
  unfolding legacy_validate_aadhaar_def strip_threes Let_def
  by (simp add: replicate12 int_of_char_def multiplication_table_def permutation_table_def)

lemma legacy_validate_raises:
  "legacy_validate_aadhaar rt (lit ''abcdefghijkl'') = Inl ValueError"
  by (simp add: legacy_validate_aadhaar_def strip_separators_def lit_def py_isspace_def
      int_of_char_def)

lemma validate_rejects_letters:
  "validate_aadhaar rt (lit ''abcdefghijkl'') = Inr False"
  by (simp add: validate_aadhaar_def strip_separators_def lit_def py_isspace_def
      str_isdigit_def char_isdigit_def)

lemma legacy_candidate_propagates:
  "validate = Some v \<Longrightarrow> v (py_slice txt (fst (whole m)) (snd (whole m))) = Inl err \<Longrightarrow>
   legacy_candidate findall threshold context_pattern validate txt m = Inl err"
  by (simp add: legacy_candidate_def Let_def)

lemma legacy_summary_empty:
  "redaction_log self = [] \<Longrightarrow>
   map_of (legacy_get_redaction_summary self) ''total_files_processed'' = Some (IntVal 0)
   \<and> map_of (legacy_get_redaction_summary self) ''total_pii_redacted'' = Some (IntVal 0)"
  by (simp add: legacy_get_redaction_summary_def)

lemma legacy_summary_no_categories:
  "map_of (legacy_get_redaction_summary self) ''pii_types_found'' = None"
  by (simp add: legacy_get_redaction_summary_def)

lemma legacy_score_two_hits:
  "context_pattern \<noteq> [] \<Longrightarrow> findall context_pattern (py_slice txt (max 0 (s - 100)) (min (int (length txt)) (e + 100))) = 2 \<Longrightarrow>
   legacy_context_score findall txt s e context_pattern = 1"
  by (simp add: legacy_context_score_def Let_def)

end
